theory Spec2Isabelle
  imports Main "HOL-Library.Word"
begin

section \<open>The OVH provider of external-dns (provider/ovh.go)\<close>

text \<open>
  The provider is an adapter between the endpoint model of external-dns and the
  record API of OVH. Its two helpers on names are pure functions on Go strings
  (byte sequences, here \<^typ>\<open>string\<close>); \<open>Records\<close> and \<open>ApplyChanges\<close> talk to the
  remote API through a client and write to the process log.
\<close>

subsection \<open>The Go library functions the file calls\<close>

text \<open>
  \<open>strings.HasSuffix\<close> and \<open>strings.TrimSuffix\<close> of the Go standard library:
  \<^verbatim>\<open>len(s) >= len(suffix) && s[len(s)-len(suffix):] == suffix\<close> and
  \<^verbatim>\<open>if HasSuffix(s, suffix) { return s[:len(s)-len(suffix)] }; return s\<close>.
\<close>

definition HasSuffix :: "string \<Rightarrow> string \<Rightarrow> bool" where
  "HasSuffix s suffix =
     (length suffix \<le> length s \<and> drop (length s - length suffix) s = suffix)"

definition TrimSuffix :: "string \<Rightarrow> string \<Rightarrow> string" where
  "TrimSuffix s suffix =
     (if HasSuffix s suffix then take (length s - length suffix) s else s)"

text \<open>
  The verb \<open>%d\<close> of \<open>fmt.Sprintf\<close> on a Go \<open>int\<close> (64 bits on the platforms
  external-dns is built for): the signed value in decimal.
\<close>

definition digit10 :: "nat \<Rightarrow> char" where
  "digit10 n = ''0123456789'' ! n"

fun decimal :: "nat \<Rightarrow> string" where
  "decimal n = (if n < 10 then [digit10 n] else decimal (n div 10) @ [digit10 (n mod 10)])"

declare decimal.simps [simp del]

definition fmt_d :: "64 word \<Rightarrow> string" where
  "fmt_d i = (if sint i < 0 then CHR ''-'' # decimal (nat (- sint i)) else decimal (nat (sint i)))"

subsection \<open>Names: formatOVHDNSName and getOVHSubDomain\<close>

definition formatOVHDNSName :: "string \<Rightarrow> string \<Rightarrow> string" where
  "formatOVHDNSName recordName zoneName =
     (if recordName = '''' then zoneName else recordName @ ''.'' @ zoneName)"

definition getOVHSubDomain :: "string \<Rightarrow> string \<Rightarrow> string" where
  "getOVHSubDomain DNSName zoneName =
     (if DNSName \<noteq> zoneName then TrimSuffix DNSName (''.'' @ zoneName) else '''')"

subsection \<open>Data\<close>

text \<open>
  A Go \<open>error\<close> that is not nil; the string is what \<open>err.Error()\<close> returns. The nil
  error is \<open>None\<close> of \<open>error option\<close>, and a Go result pair \<open>(v, err)\<close> is a value of
  \<open>error + 'a\<close>.
\<close>

datatype error = TransportError string

text \<open>
  Go's \<open>int\<close> and \<open>int64\<close> are 64-bit words; the conversions
  \<open>endpoint.TTL(record.TTL)\<close> and \<open>int(endpoint.RecordTTL)\<close> between them are
  the identity.
\<close>

record OvhDomainZoneRecord =
  ID :: "64 word"
  Zone :: string
  Target :: string
  TTL :: "64 word"
  FieldType :: string
  SubDomain :: string

text \<open>
  The fields of \<open>endpoint.Endpoint\<close> and of \<open>plan.Changes\<close> that the provider
  reads (both types are declared outside provider/ovh.go).
\<close>

record Endpoint =
  DNSName :: string
  Targets :: "string list"
  RecordType :: string
  RecordTTL :: "64 word"

record Changes =
  Create :: "Endpoint list"
  UpdateOld :: "Endpoint list"
  UpdateNew :: "Endpoint list"
  Delete :: "Endpoint list"

text \<open>The type \<open>zoneIDName\<close> is a Go \<open>map[string]string\<close>.\<close>

type_synonym zoneIDName = "string \<rightharpoonup> string"

subsection \<open>The remote API and the log\<close>

text \<open>
  A request of the client, and what came back: an error, or the value that the
  client decoded into the result argument of the call. The history of a run is the
  list of its requests with their replies, oldest first.
\<close>

datatype call =
    GET string
  | POST string OvhDomainZoneRecord
  | PUT string OvhDomainZoneRecord
  | DELETE string

datatype reply =
    Failed error
  | Strings "string list"
  | Ints "64 word list"
  | Record OvhDomainZoneRecord
  | NoBody

type_synonym event = "call \<times> reply"

text \<open>
  The client \<open>*ovh.Client\<close> and the service behind it. The service has state that the
  provider does not see, so each answer is a function of the history so far and of
  the request; there is one function for each result type that provider/ovh.go
  passes to \<open>Get\<close>, and one for each of \<open>Post\<close>, \<open>Put\<close> and \<open>Delete\<close>.
\<close>

record Client =
  GetStrings :: "event list \<Rightarrow> string \<Rightarrow> error + string list"
  GetInts :: "event list \<Rightarrow> string \<Rightarrow> error + 64 word list"
  GetRecord :: "event list \<Rightarrow> string \<Rightarrow> error + OvhDomainZoneRecord"
  PostRecord :: "event list \<Rightarrow> string \<Rightarrow> OvhDomainZoneRecord \<Rightarrow> error + OvhDomainZoneRecord"
  PutRecord :: "event list \<Rightarrow> string \<Rightarrow> OvhDomainZoneRecord \<Rightarrow> error option"
  DeleteRecord :: "event list \<Rightarrow> string \<Rightarrow> error option"

text \<open>
  The struct \<open>OVHProvider\<close>. The field \<open>domainFilter\<close> is read only through its method
  \<open>Match\<close> (declared outside provider/ovh.go), a predicate on names.
\<close>

record OVHProvider =
  domainFilter :: "string \<Rightarrow> bool"
  dryRun :: bool
  client :: Client

text \<open>
  The two functions of package \<open>provider\<close> that provider/ovh.go calls and that are
  declared in other files: the allow-list of record types and the zone lookup of
  \<open>zoneIDName\<close>, which returns a pair of strings. They are parameters of the model.
\<close>

record package =
  supportedRecordType :: "string \<Rightarrow> bool"
  FindZone :: "zoneIDName \<Rightarrow> string \<Rightarrow> string \<times> string"

text \<open>
  A call of \<open>log.Printf\<close> is kept with its format string and its arguments (a string,
  a list of targets, or an error that may be nil).
\<close>

datatype arg = Str string | Strs "string list" | Err "error option"

datatype log_entry = Printf string "arg list"

text \<open>What a run changes outside the provider: the history of the remote calls and the log.\<close>

record world =
  trace :: "event list"
  logs :: "log_entry list"

definition logPrintf :: "string \<Rightarrow> arg list \<Rightarrow> world \<Rightarrow> world" where
  "logPrintf format args w = w\<lparr>logs := logs w @ [Printf format args]\<rparr>"

definition observe :: "call \<Rightarrow> reply \<Rightarrow> world \<Rightarrow> world" where
  "observe c r w = w\<lparr>trace := trace w @ [(c, r)]\<rparr>"

definition client_GetStrings :: "Client \<Rightarrow> string \<Rightarrow> world \<Rightarrow> (error + string list) \<times> world" where
  "client_GetStrings c url w =
     (case GetStrings c (trace w) url of
        Inl err \<Rightarrow> (Inl err, observe (GET url) (Failed err) w)
      | Inr v \<Rightarrow> (Inr v, observe (GET url) (Strings v) w))"

definition client_GetInts :: "Client \<Rightarrow> string \<Rightarrow> world \<Rightarrow> (error + 64 word list) \<times> world" where
  "client_GetInts c url w =
     (case GetInts c (trace w) url of
        Inl err \<Rightarrow> (Inl err, observe (GET url) (Failed err) w)
      | Inr v \<Rightarrow> (Inr v, observe (GET url) (Ints v) w))"

definition client_GetRecord :: "Client \<Rightarrow> string \<Rightarrow> world \<Rightarrow> (error + OvhDomainZoneRecord) \<times> world" where
  "client_GetRecord c url w =
     (case GetRecord c (trace w) url of
        Inl err \<Rightarrow> (Inl err, observe (GET url) (Failed err) w)
      | Inr v \<Rightarrow> (Inr v, observe (GET url) (Record v) w))"

definition client_Post ::
  "Client \<Rightarrow> string \<Rightarrow> OvhDomainZoneRecord \<Rightarrow> world \<Rightarrow> (error + OvhDomainZoneRecord) \<times> world" where
  "client_Post c url body w =
     (case PostRecord c (trace w) url body of
        Inl err \<Rightarrow> (Inl err, observe (POST url body) (Failed err) w)
      | Inr v \<Rightarrow> (Inr v, observe (POST url body) (Record v) w))"

definition client_Put ::
  "Client \<Rightarrow> string \<Rightarrow> OvhDomainZoneRecord \<Rightarrow> world \<Rightarrow> error option \<times> world" where
  "client_Put c url body w =
     (case PutRecord c (trace w) url body of
        Some err \<Rightarrow> (Some err, observe (PUT url body) (Failed err) w)
      | None \<Rightarrow> (None, observe (PUT url body) NoBody w))"

definition client_Delete :: "Client \<Rightarrow> string \<Rightarrow> world \<Rightarrow> error option \<times> world" where
  "client_Delete c url w =
     (case DeleteRecord c (trace w) url of
        Some err \<Rightarrow> (Some err, observe (DELETE url) (Failed err) w)
      | None \<Rightarrow> (None, observe (DELETE url) NoBody w))"

text \<open>
  The three paths that provider/ovh.go builds with \<open>fmt.Sprintf\<close>:
  \<^verbatim>\<open>/domain/zone/%s/record\<close>, \<^verbatim>\<open>/domain/zone/%s/record/%d\<close> and
  \<^verbatim>\<open>/domain/zone/%s/record?fieldType=%s&subDomain=%s\<close>.
\<close>

definition zoneRecordsURL :: "string \<Rightarrow> string" where
  "zoneRecordsURL zone = ''/domain/zone/'' @ zone @ ''/record''"

definition zoneRecordURL :: "string \<Rightarrow> 64 word \<Rightarrow> string" where
  "zoneRecordURL zone recordID = ''/domain/zone/'' @ zone @ ''/record/'' @ fmt_d recordID"

definition zoneRecordFilterURL :: "string \<Rightarrow> string \<Rightarrow> string \<Rightarrow> string" where
  "zoneRecordFilterURL zone fieldType subDomain =
     ''/domain/zone/'' @ zone @ ''/record?fieldType='' @ fieldType @ ''&subDomain='' @ subDomain"

subsection \<open>Records\<close>

text \<open>
  Modelled from the spec: the constructor \<open>endpoint.NewEndpointWithTTL\<close> is declared
  outside provider/ovh.go. The spec describes the endpoint it builds: the name, the
  type and the TTL it is given, and the targets it is given.
\<close>

definition NewEndpointWithTTL :: "string \<Rightarrow> string \<Rightarrow> 64 word \<Rightarrow> string list \<Rightarrow> Endpoint" where
  "NewEndpointWithTTL dnsName recordType ttl targets =
     \<lparr>DNSName = dnsName, Targets = targets, RecordType = recordType, RecordTTL = ttl\<rparr>"

definition getZones :: "OVHProvider \<Rightarrow> world \<Rightarrow> (error + string list) \<times> world" where
  "getZones p w =
     (case client_GetStrings (client p) ''/domain/zone'' w of
        (Inl err, w') \<Rightarrow> (Inl err, w')
      | (Inr zones, w') \<Rightarrow> (Inr zones, w'))"

text \<open>The inner loop of \<open>Records\<close>, over the record ids of one zone.\<close>

fun Records_zone ::
  "package \<Rightarrow> OVHProvider \<Rightarrow> string \<Rightarrow> 64 word list \<Rightarrow> Endpoint list \<Rightarrow> world
   \<Rightarrow> (error + Endpoint list) \<times> world" where
  "Records_zone pkg p zone [] endpoints w = (Inr endpoints, w)"
| "Records_zone pkg p zone (recordID # recordIDs) endpoints w =
     (case client_GetRecord (client p) (zoneRecordURL zone recordID) w of
        (Inl err, w') \<Rightarrow> (Inl err, w')
      | (Inr record, w') \<Rightarrow>
          (if supportedRecordType pkg (FieldType record) then
            Records_zone pkg p zone recordIDs
              (endpoints @
                 [NewEndpointWithTTL (formatOVHDNSName (SubDomain record) zone)
                    (FieldType record) (TTL record) [Target record]])
              w'
          else Records_zone pkg p zone recordIDs endpoints w'))"

text \<open>The outer loop of \<open>Records\<close>, over the zones.\<close>

fun Records_zones ::
  "package \<Rightarrow> OVHProvider \<Rightarrow> string list \<Rightarrow> Endpoint list \<Rightarrow> world
   \<Rightarrow> (error + Endpoint list) \<times> world" where
  "Records_zones pkg p [] endpoints w = (Inr endpoints, w)"
| "Records_zones pkg p (zone # zones) endpoints w =
     (if domainFilter p zone then
        (case client_GetInts (client p) (zoneRecordsURL zone) w of
          (Inl err, w') \<Rightarrow> (Inl err, w')
        | (Inr recordIDs, w') \<Rightarrow>
            (case Records_zone pkg p zone recordIDs endpoints w' of
               (Inl err, w'') \<Rightarrow> (Inl err, w'')
             | (Inr endpoints', w'') \<Rightarrow> Records_zones pkg p zones endpoints' w''))
      else Records_zones pkg p zones endpoints w)"

definition Records :: "package \<Rightarrow> OVHProvider \<Rightarrow> world \<Rightarrow> (error + Endpoint list) \<times> world" where
  "Records pkg p w =
     (case getZones p w of
        (Inl err, w') \<Rightarrow> (Inl err, w')
      | (Inr zones, w') \<Rightarrow> Records_zones pkg p zones [] w')"

subsection \<open>ApplyChanges\<close>

text \<open>The body of the loop of \<open>createRecords\<close>; each \<open>continue\<close> ends the body.\<close>

definition createRecord :: "package \<Rightarrow> OVHProvider \<Rightarrow> zoneIDName \<Rightarrow> Endpoint \<Rightarrow> world \<Rightarrow> world" where
  "createRecord pkg p zoneNameIDMapper endpoint w =
     (if \<not> domainFilter p (DNSName endpoint) then
        logPrintf
          ''Skipping creation at OVH of endpoint DNSName: '%s' RecordType: '%s', it does not match against Domain filters''
          [Str (DNSName endpoint), Str (RecordType endpoint)] w
      else
        let zoneName = fst (FindZone pkg zoneNameIDMapper (DNSName endpoint)) in
        if zoneName \<noteq> '''' then
          if length (Targets endpoint) \<noteq> 1 then
            logPrintf
              ''Cannot create OVH of endpoint DNSName: '%s' RecordType: '%s', cannot have multiple Targets''
              [Str (DNSName endpoint), Str (RecordType endpoint)] w
          else
            let record = \<lparr>ID = 0, Zone = '''', Target = Targets endpoint ! 0,
                           TTL = RecordTTL endpoint, FieldType = RecordType endpoint,
                           SubDomain = getOVHSubDomain (DNSName endpoint) zoneName\<rparr>;
                w1 = logPrintf
                  (''Create new Endpoint at OVH - Zone: '%s', DNSName: '%s', RecordType: '%s', Targets: '%+v''
                     @ [CHR 0x27])
                  [Str zoneName, Str (DNSName endpoint), Str (RecordType endpoint),
                   Strs (Targets endpoint)] w
            in
            if dryRun p then w1
            else
              (case client_Post (client p) (zoneRecordsURL zoneName) record w1 of
                (Inl err, w2) \<Rightarrow>
                  logPrintf ''Error was: %s'' [Err (Some err)]
                    (logPrintf
                       (''Failed to create OVH endpoint DNSName: '%s' RecordType: '%s' for zone: '%s''
                          @ [CHR 0x27])
                       [Str (DNSName endpoint), Str (RecordType endpoint), Str zoneName] w2)
              | (Inr newRecord, w2) \<Rightarrow> w2)
        else
          logPrintf
            (''No matching zone for endpoint addition DNSName: '%s' RecordType: '%s'' @ [CHR 0x27])
            [Str (DNSName endpoint), Str (RecordType endpoint)] w)"

fun createRecords :: "package \<Rightarrow> OVHProvider \<Rightarrow> zoneIDName \<Rightarrow> Endpoint list \<Rightarrow> world \<Rightarrow> world" where
  "createRecords pkg p zoneNameIDMapper [] w = w"
| "createRecords pkg p zoneNameIDMapper (endpoint # endpoints) w =
     createRecords pkg p zoneNameIDMapper endpoints (createRecord pkg p zoneNameIDMapper endpoint w)"

text \<open>The body of the loop of \<open>deleteRecords\<close>.\<close>

definition deleteRecord :: "package \<Rightarrow> OVHProvider \<Rightarrow> zoneIDName \<Rightarrow> Endpoint \<Rightarrow> world \<Rightarrow> world" where
  "deleteRecord pkg p zoneNameIDMapper endpoint w =
     (if \<not> domainFilter p (DNSName endpoint) then
        logPrintf
          ''Skipping delete at OVH of endpoint DNSName: '%s' RecordType: '%s', it does not match against Domain filters''
          [Str (DNSName endpoint), Str (RecordType endpoint)] w
      else
        let zoneName = fst (FindZone pkg zoneNameIDMapper (DNSName endpoint)) in
        if zoneName \<noteq> '''' then
          (case client_GetInts (client p)
                 (zoneRecordFilterURL zoneName (RecordType endpoint)
                    (getOVHSubDomain (DNSName endpoint) zoneName)) w of
            (Inl err, w1) \<Rightarrow>
              logPrintf ''Error was: %s'' [Err (Some err)]
                (logPrintf
                   ''Cannot to delete OVH endpoint DNSName: '%s' RecordType: '%s', Endpoint does not exist or id is ambiguous''
                   [Str (DNSName endpoint), Str (RecordType endpoint)] w1)
          | (Inr ids, w1) \<Rightarrow>
              if length ids \<noteq> 1 then
                logPrintf ''Error was: %s'' [Err None]
                  (logPrintf
                     ''Cannot to delete OVH endpoint DNSName: '%s' RecordType: '%s', Endpoint does not exist or id is ambiguous''
                     [Str (DNSName endpoint), Str (RecordType endpoint)] w1)
              else
                let w2 = logPrintf
                  (''Delete Endpoint at OVH - Zone: '%s', DNSName: '%s', RecordType: '%s', Targets: '%+v''
                     @ [CHR 0x27])
                  [Str zoneName, Str (DNSName endpoint), Str (RecordType endpoint),
                   Strs (Targets endpoint)] w1
                in
                if dryRun p then w2
                else
                  (case client_Delete (client p) (zoneRecordURL zoneName (ids ! 0)) w2 of
                    (Some err, w3) \<Rightarrow>
                      logPrintf ''Error was: %s'' [Err (Some err)]
                        (logPrintf
                           (''Failed to delete OVH endpoint DNSName: '%s' RecordType: '%s' for zone: '%s''
                              @ [CHR 0x27])
                           [Str (DNSName endpoint), Str (RecordType endpoint), Str zoneName] w3)
                  | (None, w3) \<Rightarrow> w3))
        else
          logPrintf
            (''No matching zone for endpoint addition DNSName: '%s' RecordType: '%s'' @ [CHR 0x27])
            [Str (DNSName endpoint), Str (RecordType endpoint)] w)"

fun deleteRecords :: "package \<Rightarrow> OVHProvider \<Rightarrow> zoneIDName \<Rightarrow> Endpoint list \<Rightarrow> world \<Rightarrow> world" where
  "deleteRecords pkg p zoneNameIDMapper [] w = w"
| "deleteRecords pkg p zoneNameIDMapper (endpoint # endpoints) w =
     deleteRecords pkg p zoneNameIDMapper endpoints (deleteRecord pkg p zoneNameIDMapper endpoint w)"

text \<open>The body of the loop of \<open>updateRecords\<close>.\<close>

definition updateRecord :: "package \<Rightarrow> OVHProvider \<Rightarrow> zoneIDName \<Rightarrow> Endpoint \<Rightarrow> world \<Rightarrow> world" where
  "updateRecord pkg p zoneNameIDMapper endpoint w =
     (if \<not> domainFilter p (DNSName endpoint) then
        logPrintf
          ''Skipping update at OVH of endpoint DNSName: '%s' RecordType: '%s', it does not match against Domain filters''
          [Str (DNSName endpoint), Str (RecordType endpoint)] w
      else
        let zoneName = fst (FindZone pkg zoneNameIDMapper (DNSName endpoint)) in
        if zoneName \<noteq> '''' then
          if length (Targets endpoint) \<noteq> 1 then
            logPrintf
              ''Cannot update OVH of endpoint DNSName: '%s' RecordType: '%s', cannot have multiple Targets''
              [Str (DNSName endpoint), Str (RecordType endpoint)] w
          else
            (case client_GetInts (client p)
                   (zoneRecordFilterURL zoneName (RecordType endpoint)
                      (getOVHSubDomain (DNSName endpoint) zoneName)) w of
              (Inl err, w1) \<Rightarrow>
                logPrintf ''Error was: %s'' [Err (Some err)]
                  (logPrintf
                     ''Cannot to delete OVH endpoint DNSName: '%s' RecordType: '%s', Endpoint does not exist or id is ambiguous''
                     [Str (DNSName endpoint), Str (RecordType endpoint)] w1)
            | (Inr ids, w1) \<Rightarrow>
                if length ids \<noteq> 1 then
                  logPrintf ''Error was: %s'' [Err None]
                    (logPrintf
                       ''Cannot to delete OVH endpoint DNSName: '%s' RecordType: '%s', Endpoint does not exist or id is ambiguous''
                       [Str (DNSName endpoint), Str (RecordType endpoint)] w1)
                else
                  let record = \<lparr>ID = 0, Zone = '''', Target = Targets endpoint ! 0,
                                 TTL = RecordTTL endpoint, FieldType = RecordType endpoint,
                                 SubDomain = getOVHSubDomain (DNSName endpoint) zoneName\<rparr>;
                      w2 = logPrintf
                        (''Update Endpoint at OVH - Zone: '%s', DNSName: '%s', RecordType: '%s', Targets: '%+v''
                           @ [CHR 0x27])
                        [Str zoneName, Str (DNSName endpoint), Str (RecordType endpoint),
                         Strs (Targets endpoint)] w1
                  in
                  if dryRun p then w2
                  else
                    (case client_Put (client p) (zoneRecordURL zoneName (ids ! 0)) record w2 of
                      (Some err, w3) \<Rightarrow>
                        logPrintf ''Error was: %s'' [Err (Some err)]
                          (logPrintf
                             (''Failed to update OVH endpoint DNSName: '%s' RecordType: '%s' for zone: '%s''
                                @ [CHR 0x27])
                             [Str (DNSName endpoint), Str (RecordType endpoint), Str zoneName] w3)
                    | (None, w3) \<Rightarrow> w3))
        else
          logPrintf
            (''No matching zone for endpoint addition DNSName: '%s' RecordType: '%s'' @ [CHR 0x27])
            [Str (DNSName endpoint), Str (RecordType endpoint)] w)"

fun updateRecords :: "package \<Rightarrow> OVHProvider \<Rightarrow> zoneIDName \<Rightarrow> Endpoint list \<Rightarrow> world \<Rightarrow> world" where
  "updateRecords pkg p zoneNameIDMapper [] w = w"
| "updateRecords pkg p zoneNameIDMapper (endpoint # endpoints) w =
     updateRecords pkg p zoneNameIDMapper endpoints (updateRecord pkg p zoneNameIDMapper endpoint w)"

text \<open>The table that \<open>ApplyChanges\<close> fills: \<^verbatim>\<open>zoneNameIDMapper[z] = z\<close> for each zone.\<close>

definition zoneTable :: "string list \<Rightarrow> zoneIDName" where
  "zoneTable zones = foldl (\<lambda>zoneNameIDMapper z. zoneNameIDMapper(z \<mapsto> z)) Map.empty zones"

definition ApplyChanges :: "package \<Rightarrow> OVHProvider \<Rightarrow> Changes \<Rightarrow> world \<Rightarrow> error option \<times> world" where
  "ApplyChanges pkg p changes w =
     (case getZones p w of
        (Inl err, w') \<Rightarrow> (Some err, w')
      | (Inr zones, w') \<Rightarrow>
          let zoneNameIDMapper = zoneTable zones;
              w1 = createRecords pkg p zoneNameIDMapper (Create changes) w';
              w2 = deleteRecords pkg p zoneNameIDMapper (Delete changes) w1;
              w3 = updateRecords pkg p zoneNameIDMapper (UpdateNew changes) w2
          in (None, w3))"

subsection \<open>Notions used in the statements\<close>

text \<open>The errors of the calls of a history that failed, in order.\<close>

fun failures :: "event list \<Rightarrow> error list" where
  "failures [] = []"
| "failures ((c, Failed err) # evs) = err # failures evs"
| "failures (ev # evs) = failures evs"

text \<open>
  The errors that the log reports: the arguments of the lines \<^verbatim>\<open>Error was: %s\<close> that
  were printed with an error that is not nil.
\<close>

fun loggedErrors :: "log_entry list \<Rightarrow> error list" where
  "loggedErrors [] = []"
| "loggedErrors (Printf format [Err (Some err)] # ls) =
     (if format = ''Error was: %s'' then err # loggedErrors ls else loggedErrors ls)"
| "loggedErrors (l # ls) = loggedErrors ls"

text \<open>The calls that change the remote zone.\<close>

fun mutating :: "call \<Rightarrow> bool" where
  "mutating (GET url) = False"
| "mutating (POST url body) = True"
| "mutating (PUT url body) = True"
| "mutating (DELETE url) = True"

text \<open>
  Three expressions that the loop bodies of \<open>createRecords\<close>, \<open>deleteRecords\<close> and
  \<open>updateRecords\<close> compute for an endpoint: the variable \<open>zoneName\<close>, the path of the
  lookup by field type and sub-domain, and the record that is posted or put.
\<close>

definition owningZone :: "package \<Rightarrow> zoneIDName \<Rightarrow> Endpoint \<Rightarrow> string" where
  "owningZone pkg zoneNameIDMapper endpoint = fst (FindZone pkg zoneNameIDMapper (DNSName endpoint))"

definition lookupURL :: "package \<Rightarrow> zoneIDName \<Rightarrow> Endpoint \<Rightarrow> string" where
  "lookupURL pkg zoneNameIDMapper endpoint =
     zoneRecordFilterURL (owningZone pkg zoneNameIDMapper endpoint) (RecordType endpoint)
       (getOVHSubDomain (DNSName endpoint) (owningZone pkg zoneNameIDMapper endpoint))"

definition recordOf :: "package \<Rightarrow> zoneIDName \<Rightarrow> Endpoint \<Rightarrow> OvhDomainZoneRecord" where
  "recordOf pkg zoneNameIDMapper endpoint =
     \<lparr>ID = 0, Zone = '''', Target = Targets endpoint ! 0, TTL = RecordTTL endpoint,
      FieldType = RecordType endpoint,
      SubDomain = getOVHSubDomain (DNSName endpoint) (owningZone pkg zoneNameIDMapper endpoint)\<rparr>"

text \<open>
  What a successful run of \<open>Records\<close> does for one fetched record and for one zone:
  the endpoints (none or one) that the record adds, the call that fetches a record,
  and the calls made for a zone with the records fetched from it.
\<close>

definition endpointsOf :: "package \<Rightarrow> string \<Rightarrow> OvhDomainZoneRecord \<Rightarrow> Endpoint list" where
  "endpointsOf pkg zone r =
     (if supportedRecordType pkg (FieldType r)
      then [NewEndpointWithTTL (formatOVHDNSName (SubDomain r) zone) (FieldType r) (TTL r) [Target r]]
      else [])"

definition fetchEvents :: "string \<Rightarrow> 64 word \<times> OvhDomainZoneRecord \<Rightarrow> event" where
  "fetchEvents zone f = (GET (zoneRecordURL zone (fst f)), Record (snd f))"

definition zoneEvents :: "string \<times> (64 word \<times> OvhDomainZoneRecord) list \<Rightarrow> event list" where
  "zoneEvents z =
     (GET (zoneRecordsURL (fst z)), Ints (map fst (snd z))) # map (fetchEvents (fst z)) (snd z)"

text \<open>
  A read that started in the world \<open>w\<close> is fail-fast when it only added calls to the
  history, left the log alone, and either returned a value after calls that all
  succeeded, or returned the error of its last call, the only one that failed.
\<close>

definition failFast :: "world \<Rightarrow> (error + 'a) \<times> world \<Rightarrow> bool" where
  "failFast w res \<longleftrightarrow>
     (\<exists>evs. trace (snd res) = trace w @ evs \<and> logs (snd res) = logs w \<and>
        (case fst res of
           Inl err \<Rightarrow> \<exists>evs0 c. evs = evs0 @ [(c, Failed err)] \<and> failures evs0 = []
         | Inr v \<Rightarrow> failures evs = []))"

subsection \<open>An example account\<close>

text \<open>
  Modelled from the spec: the method \<open>FindZone\<close> of \<open>zoneIDName\<close> is declared outside
  provider/ovh.go. The spec describes it as the lookup, in a table from zone name to
  zone name, of the longest zone that owns a name by suffix match. The candidates
  are the name itself and what follows each of its dots, longest first; without a
  match the result is a pair of empty strings.
\<close>

fun dotSuffixes :: "string \<Rightarrow> string list" where
  "dotSuffixes [] = []"
| "dotSuffixes (c # cs) = (if c = CHR ''.'' then cs # dotSuffixes cs else dotSuffixes cs)"

fun firstKnown :: "zoneIDName \<Rightarrow> string list \<Rightarrow> string \<times> string" where
  "firstKnown z [] = ('''', '''')"
| "firstKnown z (name # names) =
     (case z name of Some zoneName \<Rightarrow> (name, zoneName) | None \<Rightarrow> firstKnown z names)"

definition FindZoneLongestSuffix :: "zoneIDName \<Rightarrow> string \<Rightarrow> string \<times> string" where
  "FindZoneLongestSuffix z hostname = firstKnown z (hostname # dotSuffixes hostname)"

text \<open>
  The package with that lookup and with the record types \<open>A\<close>, \<open>CNAME\<close> and \<open>TXT\<close>
  (the ones the spec names) as the allow-list.
\<close>

definition examplePackage :: package where
  "examplePackage =
     \<lparr>supportedRecordType = (\<lambda>recordType. recordType \<in> set [''A'', ''CNAME'', ''TXT'']),
      FindZone = FindZoneLongestSuffix\<rparr>"

text \<open>
  An account with the zones \<open>example.com\<close> and \<open>example.org\<close>. The first holds an
  \<open>A\<close> record for \<open>www\<close> and an \<open>MX\<close> record at the apex; the records of the second cannot be
  listed. The lookup for \<open>old\<close> finds two records and the one for \<open>gone\<close> times out.
  Only the sub-domain \<open>api\<close> can be created.
\<close>

definition wwwRecord :: OvhDomainZoneRecord where
  "wwwRecord = \<lparr>ID = 1, Zone = ''example.com'', Target = ''1.2.3.4'', TTL = 300,
                 FieldType = ''A'', SubDomain = ''www''\<rparr>"

definition mxRecord :: OvhDomainZoneRecord where
  "mxRecord = \<lparr>ID = 2, Zone = ''example.com'', Target = ''mail.example.net'', TTL = 3600,
                FieldType = ''MX'', SubDomain = ''''\<rparr>"

definition exampleClient :: Client where
  "exampleClient =
     \<lparr>GetStrings = (\<lambda>h url.
        if url = ''/domain/zone'' then Inr [''example.com'', ''example.org'']
        else Inl (TransportError ''404'')),
      GetInts = (\<lambda>h url.
        if url = ''/domain/zone/example.com/record'' then Inr [1, 2]
        else if url = ''/domain/zone/example.org/record'' then Inl (TransportError ''403'')
        else if url = ''/domain/zone/example.com/record?fieldType=A&subDomain=www'' then Inr [1]
        else if url = ''/domain/zone/example.com/record?fieldType=CNAME&subDomain=old'' then Inr [3, 4]
        else if url = ''/domain/zone/example.com/record?fieldType=TXT&subDomain=gone''
          then Inl (TransportError ''timeout'')
        else Inr []),
      GetRecord = (\<lambda>h url.
        if url = ''/domain/zone/example.com/record/1'' then Inr wwwRecord
        else if url = ''/domain/zone/example.com/record/2'' then Inr mxRecord
        else Inl (TransportError ''404'')),
      PostRecord = (\<lambda>h url body.
        if SubDomain body = ''api'' then Inr (body\<lparr>ID := 5, Zone := ''example.com''\<rparr>)
        else Inl (TransportError ''400'')),
      PutRecord = (\<lambda>h url body. None),
      DeleteRecord = (\<lambda>h url. None)\<rparr>"

text \<open>A provider for the names under \<open>example.com\<close>, and one for all names.\<close>

definition exampleProvider :: "bool \<Rightarrow> OVHProvider" where
  "exampleProvider dry =
     \<lparr>domainFilter = (\<lambda>name. name = ''example.com'' \<or> HasSuffix name ''.example.com''),
      dryRun = dry, client = exampleClient\<rparr>"

definition openProvider :: OVHProvider where
  "openProvider = \<lparr>domainFilter = (\<lambda>name. True), dryRun = False, client = exampleClient\<rparr>"

definition emptyWorld :: world where
  "emptyWorld = \<lparr>trace = [], logs = []\<rparr>"

definition exampleTable :: zoneIDName where
  "exampleTable = zoneTable [''example.com'', ''example.org'']"

definition apiEndpoint :: Endpoint where
  "apiEndpoint =
     \<lparr>DNSName = ''api.example.com'', Targets = [''5.6.7.8''], RecordType = ''A'', RecordTTL = 0\<rparr>"

definition failingEndpoint :: Endpoint where
  "failingEndpoint =
     \<lparr>DNSName = ''fail.example.com'', Targets = [''9.9.9.9''], RecordType = ''A'', RecordTTL = 0\<rparr>"

definition twoTargetsEndpoint :: Endpoint where
  "twoTargetsEndpoint =
     \<lparr>DNSName = ''rr.example.com'', Targets = [''1.1.1.1'', ''2.2.2.2''], RecordType = ''A'',
      RecordTTL = 0\<rparr>"

definition foreignEndpoint :: Endpoint where
  "foreignEndpoint =
     \<lparr>DNSName = ''www.example.org'', Targets = [''7.7.7.7''], RecordType = ''A'', RecordTTL = 0\<rparr>"

definition oldEndpoint :: Endpoint where
  "oldEndpoint =
     \<lparr>DNSName = ''old.example.com'', Targets = [''legacy.example.net''], RecordType = ''CNAME'',
      RecordTTL = 0\<rparr>"

definition goneEndpoint :: Endpoint where
  "goneEndpoint =
     \<lparr>DNSName = ''gone.example.com'', Targets = [''v=spf1''], RecordType = ''TXT'', RecordTTL = 0\<rparr>"

definition wwwEndpoint :: Endpoint where
  "wwwEndpoint =
     \<lparr>DNSName = ''www.example.com'', Targets = [''1.2.3.5''], RecordType = ''A'', RecordTTL = 60\<rparr>"

definition exampleChanges :: Changes where
  "exampleChanges =
     \<lparr>Create = [failingEndpoint, twoTargetsEndpoint, foreignEndpoint, apiEndpoint],
      UpdateOld = [],
      UpdateNew = [goneEndpoint, twoTargetsEndpoint, wwwEndpoint],
      Delete = [oldEndpoint, foreignEndpoint, wwwEndpoint\<lparr>Targets := []\<rparr>]\<rparr>"

section \<open>Properties of the name helpers\<close>

lemma HasSuffix_append: "HasSuffix (s @ t) t"
  by (simp add: HasSuffix_def)

lemma TrimSuffix_append: "TrimSuffix (s @ t) t = s"
  by (simp add: TrimSuffix_def HasSuffix_append)

lemma HasSuffix_split: "HasSuffix s t \<Longrightarrow> s = take (length s - length t) s @ t"
  by (metis HasSuffix_def append_take_drop_id)

lemma TrimSuffix_empty_iff:
  "TrimSuffix s t = '''' \<longleftrightarrow> s = '''' \<or> s = t"
proof (cases "HasSuffix s t")
  case True
  then have split: "s = take (length s - length t) s @ t"
    by (rule HasSuffix_split)
  have "take (length s - length t) s = '''' \<longleftrightarrow> s = t"
  proof
    assume "take (length s - length t) s = ''''"
    with split show "s = t" by simp
  next
    assume "s = t"
    then show "take (length s - length t) s = ''''" by simp
  qed
  moreover have "s = '''' \<Longrightarrow> s = t"
    using True by (simp add: HasSuffix_def)
  ultimately show ?thesis
    using True by (auto simp: TrimSuffix_def)
next
  case False
  then have "s \<noteq> t"
    by (auto simp: HasSuffix_def)
  with False show ?thesis
    by (simp add: TrimSuffix_def)
qed

lemma getOVHSubDomain_empty_cases:
  "getOVHSubDomain f z = '''' \<longleftrightarrow> f = z \<or> f = '''' \<or> f = ''.'' @ z"
  by (auto simp: getOVHSubDomain_def TrimSuffix_empty_iff)

text \<open>
  C8. A fully-qualified name is not empty and does not start with a dot (its first
  label is not empty). For every such name \<open>f\<close> and every zone name \<open>z\<close>,
  \<open>getOVHSubDomain f z\<close> is the empty string if and only if \<open>f\<close> equals \<open>z\<close>.
\<close>

theorem getOVHSubDomain_empty_iff:
  assumes "f \<noteq> ''''" and "hd f \<noteq> CHR ''.''"
  shows "getOVHSubDomain f z = '''' \<longleftrightarrow> f = z"
proof -
  have "f \<noteq> ''.'' @ z"
    using assms(2) by auto
  then show ?thesis
    using assms(1) by (simp add: getOVHSubDomain_empty_cases)
qed

text \<open>
  C9. Formatting a name from a sub-domain \<open>s\<close> and a zone \<open>z\<close> and extracting the
  sub-domain again gives \<open>s\<close> back, for every \<open>s\<close> and \<open>z\<close>; the empty sub-domain
  maps to the bare zone name and back.
\<close>

theorem getOVHSubDomain_formatOVHDNSName:
  "getOVHSubDomain (formatOVHDNSName s z) z = s"
proof (cases "s = ''''")
  case True
  then show ?thesis
    by (simp add: formatOVHDNSName_def getOVHSubDomain_def)
next
  case False
  then have "s @ ''.'' @ z \<noteq> z"
    by simp
  moreover have "TrimSuffix (s @ ''.'' @ z) (''.'' @ z) = s"
    by (rule TrimSuffix_append)
  ultimately show ?thesis
    using False by (simp add: formatOVHDNSName_def getOVHSubDomain_def)
qed

theorem getOVHSubDomain_formatOVHDNSName_witness:
  "getOVHSubDomain (formatOVHDNSName ''www'' ''example.com'') ''example.com'' = ''www''
   \<and> getOVHSubDomain (formatOVHDNSName '''' ''example.com'') ''example.com'' = ''''"
  using getOVHSubDomain_formatOVHDNSName [of "''www''" "''example.com''"]
    getOVHSubDomain_formatOVHDNSName [of "''''" "''example.com''"]
  by simp

section \<open>The history and the log\<close>

lemma failures_append [simp]: "failures (xs @ ys) = failures xs @ failures ys"
  by (induction xs rule: failures.induct) simp_all

lemma loggedErrors_append [simp]: "loggedErrors (xs @ ys) = loggedErrors xs @ loggedErrors ys"
  by (induction xs rule: loggedErrors.induct) simp_all

lemma trace_logPrintf [simp]: "trace (logPrintf f a w) = trace w"
  by (simp add: logPrintf_def)

lemma logs_logPrintf [simp]: "logs (logPrintf f a w) = logs w @ [Printf f a]"
  by (simp add: logPrintf_def)

lemma trace_observe [simp]: "trace (observe c r w) = trace w @ [(c, r)]"
  by (simp add: observe_def)

lemma logs_observe [simp]: "logs (observe c r w) = logs w"
  by (simp add: observe_def)

lemmas client_defs = client_GetStrings_def client_GetInts_def client_GetRecord_def
  client_Post_def client_Put_def client_Delete_def

lemma createRecord_absorbs:
  "\<exists>evs lgs. trace (createRecord pkg p m e w) = trace w @ evs
     \<and> logs (createRecord pkg p m e w) = logs w @ lgs
     \<and> failures evs = loggedErrors lgs"
  by (simp add: createRecord_def Let_def client_defs split: sum.splits option.splits)

lemma deleteRecord_absorbs:
  "\<exists>evs lgs. trace (deleteRecord pkg p m e w) = trace w @ evs
     \<and> logs (deleteRecord pkg p m e w) = logs w @ lgs
     \<and> failures evs = loggedErrors lgs"
  by (simp add: deleteRecord_def Let_def client_defs split: sum.splits option.splits)

lemma updateRecord_absorbs:
  "\<exists>evs lgs. trace (updateRecord pkg p m e w) = trace w @ evs
     \<and> logs (updateRecord pkg p m e w) = logs w @ lgs
     \<and> failures evs = loggedErrors lgs"
  by (simp add: updateRecord_def Let_def client_defs split: sum.splits option.splits)

section \<open>The three loops of ApplyChanges\<close>

lemma createRecords_append:
  "createRecords pkg p m (xs @ ys) w = createRecords pkg p m ys (createRecords pkg p m xs w)"
  by (induction xs arbitrary: w) simp_all

lemma deleteRecords_append:
  "deleteRecords pkg p m (xs @ ys) w = deleteRecords pkg p m ys (deleteRecords pkg p m xs w)"
  by (induction xs arbitrary: w) simp_all

lemma updateRecords_append:
  "updateRecords pkg p m (xs @ ys) w = updateRecords pkg p m ys (updateRecords pkg p m xs w)"
  by (induction xs arbitrary: w) simp_all

lemma createRecords_absorbs:
  "\<exists>evs lgs. trace (createRecords pkg p m es w) = trace w @ evs
     \<and> logs (createRecords pkg p m es w) = logs w @ lgs
     \<and> failures evs = loggedErrors lgs"
proof (induction es arbitrary: w)
  case Nil
  show ?case by simp
next
  case (Cons e es)
  obtain evs1 lgs1 where 1: "trace (createRecord pkg p m e w) = trace w @ evs1"
    "logs (createRecord pkg p m e w) = logs w @ lgs1" "failures evs1 = loggedErrors lgs1"
    using createRecord_absorbs by blast
  obtain evs2 lgs2 where 2:
    "trace (createRecords pkg p m es (createRecord pkg p m e w)) = trace (createRecord pkg p m e w) @ evs2"
    "logs (createRecords pkg p m es (createRecord pkg p m e w)) = logs (createRecord pkg p m e w) @ lgs2"
    "failures evs2 = loggedErrors lgs2"
    using Cons.IH by blast
  have "trace (createRecords pkg p m (e # es) w) = trace w @ (evs1 @ evs2)"
    "logs (createRecords pkg p m (e # es) w) = logs w @ (lgs1 @ lgs2)"
    "failures (evs1 @ evs2) = loggedErrors (lgs1 @ lgs2)"
    using 1 2 by simp_all
  then show ?case by blast
qed

lemma deleteRecords_absorbs:
  "\<exists>evs lgs. trace (deleteRecords pkg p m es w) = trace w @ evs
     \<and> logs (deleteRecords pkg p m es w) = logs w @ lgs
     \<and> failures evs = loggedErrors lgs"
proof (induction es arbitrary: w)
  case Nil
  show ?case by simp
next
  case (Cons e es)
  obtain evs1 lgs1 where 1: "trace (deleteRecord pkg p m e w) = trace w @ evs1"
    "logs (deleteRecord pkg p m e w) = logs w @ lgs1" "failures evs1 = loggedErrors lgs1"
    using deleteRecord_absorbs by blast
  obtain evs2 lgs2 where 2:
    "trace (deleteRecords pkg p m es (deleteRecord pkg p m e w)) = trace (deleteRecord pkg p m e w) @ evs2"
    "logs (deleteRecords pkg p m es (deleteRecord pkg p m e w)) = logs (deleteRecord pkg p m e w) @ lgs2"
    "failures evs2 = loggedErrors lgs2"
    using Cons.IH by blast
  have "trace (deleteRecords pkg p m (e # es) w) = trace w @ (evs1 @ evs2)"
    "logs (deleteRecords pkg p m (e # es) w) = logs w @ (lgs1 @ lgs2)"
    "failures (evs1 @ evs2) = loggedErrors (lgs1 @ lgs2)"
    using 1 2 by simp_all
  then show ?case by blast
qed

lemma updateRecords_absorbs:
  "\<exists>evs lgs. trace (updateRecords pkg p m es w) = trace w @ evs
     \<and> logs (updateRecords pkg p m es w) = logs w @ lgs
     \<and> failures evs = loggedErrors lgs"
proof (induction es arbitrary: w)
  case Nil
  show ?case by simp
next
  case (Cons e es)
  obtain evs1 lgs1 where 1: "trace (updateRecord pkg p m e w) = trace w @ evs1"
    "logs (updateRecord pkg p m e w) = logs w @ lgs1" "failures evs1 = loggedErrors lgs1"
    using updateRecord_absorbs by blast
  obtain evs2 lgs2 where 2:
    "trace (updateRecords pkg p m es (updateRecord pkg p m e w)) = trace (updateRecord pkg p m e w) @ evs2"
    "logs (updateRecords pkg p m es (updateRecord pkg p m e w)) = logs (updateRecord pkg p m e w) @ lgs2"
    "failures evs2 = loggedErrors lgs2"
    using Cons.IH by blast
  have "trace (updateRecords pkg p m (e # es) w) = trace w @ (evs1 @ evs2)"
    "logs (updateRecords pkg p m (e # es) w) = logs w @ (lgs1 @ lgs2)"
    "failures (evs1 @ evs2) = loggedErrors (lgs1 @ lgs2)"
    using 1 2 by simp_all
  then show ?case by blast
qed

lemma createRecord_attempt:
  assumes "domainFilter p (DNSName e)" and "owningZone pkg m e \<noteq> ''''"
    and "length (Targets e) = 1" and "\<not> dryRun p"
  shows "\<exists>r. trace (createRecord pkg p m e w) =
           trace w @ [(POST (zoneRecordsURL (owningZone pkg m e)) (recordOf pkg m e), r)]"
  using assms
  by (simp add: createRecord_def Let_def client_defs owningZone_def recordOf_def split: sum.splits)

lemma deleteRecord_attempt:
  assumes "domainFilter p (DNSName e)" and "owningZone pkg m e \<noteq> ''''"
  shows "\<exists>r evs. trace (deleteRecord pkg p m e w) = trace w @ (GET (lookupURL pkg m e), r) # evs"
  using assms
  by (simp add: deleteRecord_def Let_def client_defs owningZone_def lookupURL_def
      split: sum.splits option.splits)

lemma updateRecord_attempt:
  assumes "domainFilter p (DNSName e)" and "owningZone pkg m e \<noteq> ''''"
    and "length (Targets e) = 1"
  shows "\<exists>r evs. trace (updateRecord pkg p m e w) = trace w @ (GET (lookupURL pkg m e), r) # evs"
  using assms
  by (simp add: updateRecord_def Let_def client_defs owningZone_def lookupURL_def
      split: sum.splits option.splits)

lemma createRecords_attempt:
  assumes "e \<in> set es" and "domainFilter p (DNSName e)" and "owningZone pkg m e \<noteq> ''''"
    and "length (Targets e) = 1" and "\<not> dryRun p"
    and "trace (createRecords pkg p m es w) = trace w @ evs"
  shows "\<exists>r. (POST (zoneRecordsURL (owningZone pkg m e)) (recordOf pkg m e), r) \<in> set evs"
proof -
  obtain xs ys where es: "es = xs @ e # ys"
    using assms(1) by (auto dest: split_list)
  let ?w1 = "createRecords pkg p m xs w"
  obtain evs1 where 1: "trace ?w1 = trace w @ evs1"
    using createRecords_absorbs by blast
  obtain r where 2: "trace (createRecord pkg p m e ?w1) =
      trace ?w1 @ [(POST (zoneRecordsURL (owningZone pkg m e)) (recordOf pkg m e), r)]"
    using createRecord_attempt [OF assms(2-5)] by blast
  obtain evs3 where 3: "trace (createRecords pkg p m ys (createRecord pkg p m e ?w1)) =
      trace (createRecord pkg p m e ?w1) @ evs3"
    using createRecords_absorbs by blast
  have "trace (createRecords pkg p m es w) =
      trace w @ evs1 @ [(POST (zoneRecordsURL (owningZone pkg m e)) (recordOf pkg m e), r)] @ evs3"
    using 1 2 3 by (simp add: es createRecords_append)
  with assms(6) have "evs = evs1 @ [(POST (zoneRecordsURL (owningZone pkg m e)) (recordOf pkg m e), r)] @ evs3"
    by simp
  then show ?thesis by auto
qed

lemma deleteRecords_attempt:
  assumes "e \<in> set es" and "domainFilter p (DNSName e)" and "owningZone pkg m e \<noteq> ''''"
    and "trace (deleteRecords pkg p m es w) = trace w @ evs"
  shows "\<exists>r. (GET (lookupURL pkg m e), r) \<in> set evs"
proof -
  obtain xs ys where es: "es = xs @ e # ys"
    using assms(1) by (auto dest: split_list)
  let ?w1 = "deleteRecords pkg p m xs w"
  obtain evs1 where 1: "trace ?w1 = trace w @ evs1"
    using deleteRecords_absorbs by blast
  obtain r evs2 where 2: "trace (deleteRecord pkg p m e ?w1) =
      trace ?w1 @ (GET (lookupURL pkg m e), r) # evs2"
    using deleteRecord_attempt [OF assms(2-3)] by blast
  obtain evs3 where 3: "trace (deleteRecords pkg p m ys (deleteRecord pkg p m e ?w1)) =
      trace (deleteRecord pkg p m e ?w1) @ evs3"
    using deleteRecords_absorbs by blast
  have "trace (deleteRecords pkg p m es w) =
      trace w @ evs1 @ (GET (lookupURL pkg m e), r) # evs2 @ evs3"
    using 1 2 3 by (simp add: es deleteRecords_append)
  with assms(4) have "evs = evs1 @ (GET (lookupURL pkg m e), r) # evs2 @ evs3"
    by simp
  then show ?thesis by auto
qed

lemma updateRecords_attempt:
  assumes "e \<in> set es" and "domainFilter p (DNSName e)" and "owningZone pkg m e \<noteq> ''''"
    and "length (Targets e) = 1"
    and "trace (updateRecords pkg p m es w) = trace w @ evs"
  shows "\<exists>r. (GET (lookupURL pkg m e), r) \<in> set evs"
proof -
  obtain xs ys where es: "es = xs @ e # ys"
    using assms(1) by (auto dest: split_list)
  let ?w1 = "updateRecords pkg p m xs w"
  obtain evs1 where 1: "trace ?w1 = trace w @ evs1"
    using updateRecords_absorbs by blast
  obtain r evs2 where 2: "trace (updateRecord pkg p m e ?w1) =
      trace ?w1 @ (GET (lookupURL pkg m e), r) # evs2"
    using updateRecord_attempt [OF assms(2-4)] by blast
  obtain evs3 where 3: "trace (updateRecords pkg p m ys (updateRecord pkg p m e ?w1)) =
      trace (updateRecord pkg p m e ?w1) @ evs3"
    using updateRecords_absorbs by blast
  have "trace (updateRecords pkg p m es w) =
      trace w @ evs1 @ (GET (lookupURL pkg m e), r) # evs2 @ evs3"
    using 1 2 3 by (simp add: es updateRecords_append)
  with assms(5) have "evs = evs1 @ (GET (lookupURL pkg m e), r) # evs2 @ evs3"
    by simp
  then show ?thesis by auto
qed

lemma getZones_eq:
  "getZones p w =
     (case GetStrings (client p) (trace w) ''/domain/zone'' of
        Inl err \<Rightarrow> (Inl err, observe (GET ''/domain/zone'') (Failed err) w)
      | Inr zones \<Rightarrow> (Inr zones, observe (GET ''/domain/zone'') (Strings zones) w))"
  by (simp add: getZones_def client_GetStrings_def split: sum.splits)

text \<open>
  C2. \<open>ApplyChanges\<close> returns an error if and only if the zone listing fails, and
  then it returns that error and does nothing else. When the listing succeeds it
  returns nil, and in the rest of the run: the errors of the remote calls that failed
  are, in order, the errors reported in the log; every endpoint of the create list
  that passes the checks is posted (outside a dry run), and for every endpoint of the
  delete list and of the update list that passes the checks the record id is looked
  up, whatever happened to the endpoints and the lists before it.
\<close>

theorem ApplyChanges_absorbs_write_errors:
  "(case GetStrings (client p) (trace w) ''/domain/zone'' of
      Inl err \<Rightarrow>
        ApplyChanges pkg p changes w = (Some err, observe (GET ''/domain/zone'') (Failed err) w)
    | Inr zones \<Rightarrow>
        fst (ApplyChanges pkg p changes w) = None \<and>
        (\<exists>evs lgs.
           trace (snd (ApplyChanges pkg p changes w)) =
             trace w @ (GET ''/domain/zone'', Strings zones) # evs \<and>
           logs (snd (ApplyChanges pkg p changes w)) = logs w @ lgs \<and>
           failures evs = loggedErrors lgs \<and>
           (\<forall>e \<in> set (Create changes).
              domainFilter p (DNSName e) \<and> owningZone pkg (zoneTable zones) e \<noteq> '''' \<and>
              length (Targets e) = 1 \<and> \<not> dryRun p \<longrightarrow>
              (\<exists>r. (POST (zoneRecordsURL (owningZone pkg (zoneTable zones) e))
                       (recordOf pkg (zoneTable zones) e), r) \<in> set evs)) \<and>
           (\<forall>e \<in> set (Delete changes).
              domainFilter p (DNSName e) \<and> owningZone pkg (zoneTable zones) e \<noteq> '''' \<longrightarrow>
              (\<exists>r. (GET (lookupURL pkg (zoneTable zones) e), r) \<in> set evs)) \<and>
           (\<forall>e \<in> set (UpdateNew changes).
              domainFilter p (DNSName e) \<and> owningZone pkg (zoneTable zones) e \<noteq> '''' \<and>
              length (Targets e) = 1 \<longrightarrow>
              (\<exists>r. (GET (lookupURL pkg (zoneTable zones) e), r) \<in> set evs))))"
proof (cases "GetStrings (client p) (trace w) ''/domain/zone''")
  case (Inl err)
  then show ?thesis
    by (simp add: ApplyChanges_def getZones_eq)
next
  case (Inr zones)
  let ?m = "zoneTable zones"
  let ?w0 = "observe (GET ''/domain/zone'') (Strings zones) w"
  let ?w1 = "createRecords pkg p ?m (Create changes) ?w0"
  let ?w2 = "deleteRecords pkg p ?m (Delete changes) ?w1"
  let ?w3 = "updateRecords pkg p ?m (UpdateNew changes) ?w2"
  have run: "ApplyChanges pkg p changes w = (None, ?w3)"
    using Inr by (simp add: ApplyChanges_def getZones_eq Let_def)
  obtain evs1 lgs1 where 1: "trace ?w1 = trace ?w0 @ evs1" "logs ?w1 = logs ?w0 @ lgs1"
    "failures evs1 = loggedErrors lgs1"
    using createRecords_absorbs by blast
  obtain evs2 lgs2 where 2: "trace ?w2 = trace ?w1 @ evs2" "logs ?w2 = logs ?w1 @ lgs2"
    "failures evs2 = loggedErrors lgs2"
    using deleteRecords_absorbs by blast
  obtain evs3 lgs3 where 3: "trace ?w3 = trace ?w2 @ evs3" "logs ?w3 = logs ?w2 @ lgs3"
    "failures evs3 = loggedErrors lgs3"
    using updateRecords_absorbs by blast
  let ?evs = "evs1 @ evs2 @ evs3"
  let ?lgs = "lgs1 @ lgs2 @ lgs3"
  have tr: "trace ?w3 = trace w @ (GET ''/domain/zone'', Strings zones) # ?evs"
    using 1(1) 2(1) 3(1) by simp
  have lg: "logs ?w3 = logs w @ ?lgs"
    using 1(2) 2(2) 3(2) by simp
  have fl: "failures ?evs = loggedErrors ?lgs"
    using 1(3) 2(3) 3(3) by simp
  have cr: "\<exists>r. (POST (zoneRecordsURL (owningZone pkg ?m e)) (recordOf pkg ?m e), r) \<in> set ?evs"
    if "e \<in> set (Create changes)" "domainFilter p (DNSName e)" "owningZone pkg ?m e \<noteq> ''''"
      "length (Targets e) = 1" "\<not> dryRun p" for e
    using createRecords_attempt [OF that 1(1)] by auto
  have de: "\<exists>r. (GET (lookupURL pkg ?m e), r) \<in> set ?evs"
    if "e \<in> set (Delete changes)" "domainFilter p (DNSName e)" "owningZone pkg ?m e \<noteq> ''''" for e
    using deleteRecords_attempt [OF that 2(1)] by auto
  have up: "\<exists>r. (GET (lookupURL pkg ?m e), r) \<in> set ?evs"
    if "e \<in> set (UpdateNew changes)" "domainFilter p (DNSName e)" "owningZone pkg ?m e \<noteq> ''''"
      "length (Targets e) = 1" for e
    using updateRecords_attempt [OF that 3(1)] by auto
  have "\<exists>evs lgs.
           trace ?w3 = trace w @ (GET ''/domain/zone'', Strings zones) # evs \<and>
           logs ?w3 = logs w @ lgs \<and>
           failures evs = loggedErrors lgs \<and>
           (\<forall>e \<in> set (Create changes).
              domainFilter p (DNSName e) \<and> owningZone pkg ?m e \<noteq> '''' \<and>
              length (Targets e) = 1 \<and> \<not> dryRun p \<longrightarrow>
              (\<exists>r. (POST (zoneRecordsURL (owningZone pkg ?m e)) (recordOf pkg ?m e), r) \<in> set evs)) \<and>
           (\<forall>e \<in> set (Delete changes).
              domainFilter p (DNSName e) \<and> owningZone pkg ?m e \<noteq> '''' \<longrightarrow>
              (\<exists>r. (GET (lookupURL pkg ?m e), r) \<in> set evs)) \<and>
           (\<forall>e \<in> set (UpdateNew changes).
              domainFilter p (DNSName e) \<and> owningZone pkg ?m e \<noteq> '''' \<and>
              length (Targets e) = 1 \<longrightarrow>
              (\<exists>r. (GET (lookupURL pkg ?m e), r) \<in> set evs))"
    using tr lg fl cr de up by blast
  then show ?thesis
    using Inr by (simp add: run)
qed

subsection \<open>Dry run\<close>

lemma createRecord_dryRun: "dryRun p \<Longrightarrow> trace (createRecord pkg p m e w) = trace w"
  by (simp add: createRecord_def Let_def)

lemma createRecords_dryRun: "dryRun p \<Longrightarrow> trace (createRecords pkg p m es w) = trace w"
  by (induction es arbitrary: w) (simp_all add: createRecord_dryRun)

lemma deleteRecord_dryRun:
  "dryRun p \<Longrightarrow>
   map fst (trace (deleteRecord pkg p m e w)) =
     map fst (trace w) @
       (if domainFilter p (DNSName e) \<and> owningZone pkg m e \<noteq> ''''
        then [GET (lookupURL pkg m e)] else [])"
  by (simp add: deleteRecord_def Let_def client_defs owningZone_def lookupURL_def
      split: sum.splits)

lemma deleteRecords_dryRun:
  "dryRun p \<Longrightarrow>
   map fst (trace (deleteRecords pkg p m es w)) =
     map fst (trace w) @
       map (\<lambda>e. GET (lookupURL pkg m e))
         (filter (\<lambda>e. domainFilter p (DNSName e) \<and> owningZone pkg m e \<noteq> '''') es)"
  by (induction es arbitrary: w) (simp_all add: deleteRecord_dryRun)

lemma updateRecord_dryRun:
  "dryRun p \<Longrightarrow>
   map fst (trace (updateRecord pkg p m e w)) =
     map fst (trace w) @
       (if domainFilter p (DNSName e) \<and> owningZone pkg m e \<noteq> '''' \<and> length (Targets e) = 1
        then [GET (lookupURL pkg m e)] else [])"
  by (simp add: updateRecord_def Let_def client_defs owningZone_def lookupURL_def
      split: sum.splits)

lemma updateRecords_dryRun:
  "dryRun p \<Longrightarrow>
   map fst (trace (updateRecords pkg p m es w)) =
     map fst (trace w) @
       map (\<lambda>e. GET (lookupURL pkg m e))
         (filter (\<lambda>e. domainFilter p (DNSName e) \<and> owningZone pkg m e \<noteq> ''''
                     \<and> length (Targets e) = 1) es)"
  by (induction es arbitrary: w) (simp_all add: updateRecord_dryRun)

text \<open>
  C4. With the dry-run flag set, the calls that \<open>ApplyChanges\<close> makes are exactly: the
  zone listing and, when it succeeds, the record-id lookup of every endpoint of the
  delete list that passes the domain filter and has a zone, then the lookup of every
  endpoint of the update list that passes both checks and has one target. None of
  them is a POST, a PUT or a DELETE.
\<close>

theorem ApplyChanges_dryRun:
  assumes "dryRun p"
  shows "\<exists>calls.
     map fst (trace (snd (ApplyChanges pkg p changes w))) = map fst (trace w) @ calls \<and>
     (\<forall>c \<in> set calls. \<not> mutating c) \<and>
     calls = GET ''/domain/zone'' #
       (case GetStrings (client p) (trace w) ''/domain/zone'' of
          Inl err \<Rightarrow> []
        | Inr zones \<Rightarrow>
            map (\<lambda>e. GET (lookupURL pkg (zoneTable zones) e))
              (filter (\<lambda>e. domainFilter p (DNSName e) \<and> owningZone pkg (zoneTable zones) e \<noteq> '''')
                 (Delete changes)) @
            map (\<lambda>e. GET (lookupURL pkg (zoneTable zones) e))
              (filter (\<lambda>e. domainFilter p (DNSName e) \<and> owningZone pkg (zoneTable zones) e \<noteq> ''''
                          \<and> length (Targets e) = 1)
                 (UpdateNew changes)))"
proof (cases "GetStrings (client p) (trace w) ''/domain/zone''")
  case (Inl err)
  then show ?thesis
    by (simp add: ApplyChanges_def getZones_eq)
next
  case (Inr zones)
  let ?m = "zoneTable zones"
  let ?w0 = "observe (GET ''/domain/zone'') (Strings zones) w"
  let ?w1 = "createRecords pkg p ?m (Create changes) ?w0"
  let ?w2 = "deleteRecords pkg p ?m (Delete changes) ?w1"
  let ?w3 = "updateRecords pkg p ?m (UpdateNew changes) ?w2"
  let ?ds = "map (\<lambda>e. GET (lookupURL pkg ?m e))
      (filter (\<lambda>e. domainFilter p (DNSName e) \<and> owningZone pkg ?m e \<noteq> '''') (Delete changes))"
  let ?us = "map (\<lambda>e. GET (lookupURL pkg ?m e))
      (filter (\<lambda>e. domainFilter p (DNSName e) \<and> owningZone pkg ?m e \<noteq> '''' \<and> length (Targets e) = 1)
         (UpdateNew changes))"
  have run: "snd (ApplyChanges pkg p changes w) = ?w3"
    using Inr by (simp add: ApplyChanges_def getZones_eq Let_def)
  have "map fst (trace ?w1) = map fst (trace w) @ [GET ''/domain/zone'']"
    using assms by (simp add: createRecords_dryRun)
  then have "map fst (trace ?w2) = map fst (trace w) @ [GET ''/domain/zone''] @ ?ds"
    using assms by (simp add: deleteRecords_dryRun)
  then have "map fst (trace ?w3) = map fst (trace w) @ GET ''/domain/zone'' # ?ds @ ?us"
    using assms by (simp add: updateRecords_dryRun)
  moreover have "\<forall>c \<in> set (GET ''/domain/zone'' # ?ds @ ?us). \<not> mutating c"
    by auto
  ultimately show ?thesis
    using Inr by (simp add: run)
qed

subsection \<open>One endpoint in the middle of a list\<close>

text \<open>
  C7. An endpoint anywhere in the create, delete or update list whose name the domain
  filter does not match adds the line that reports the skip to the log and no call
  to the history, and the loop goes on with the endpoints after it.
\<close>

theorem filtered_out_endpoint_is_skipped:
  assumes "\<not> domainFilter p (DNSName e)"
  shows
    "(let w1 = createRecords pkg p m es1 w in
        createRecords pkg p m (es1 @ e # es2) w =
          createRecords pkg p m es2
            (w1\<lparr>logs := logs w1 @
               [Printf ''Skipping creation at OVH of endpoint DNSName: '%s' RecordType: '%s', it does not match against Domain filters''
                  [Str (DNSName e), Str (RecordType e)]]\<rparr>)) \<and>
     (let w1 = deleteRecords pkg p m es1 w in
        deleteRecords pkg p m (es1 @ e # es2) w =
          deleteRecords pkg p m es2
            (w1\<lparr>logs := logs w1 @
               [Printf ''Skipping delete at OVH of endpoint DNSName: '%s' RecordType: '%s', it does not match against Domain filters''
                  [Str (DNSName e), Str (RecordType e)]]\<rparr>)) \<and>
     (let w1 = updateRecords pkg p m es1 w in
        updateRecords pkg p m (es1 @ e # es2) w =
          updateRecords pkg p m es2
            (w1\<lparr>logs := logs w1 @
               [Printf ''Skipping update at OVH of endpoint DNSName: '%s' RecordType: '%s', it does not match against Domain filters''
                  [Str (DNSName e), Str (RecordType e)]]\<rparr>))"
  using assms
  by (simp add: createRecords_append deleteRecords_append updateRecords_append
      createRecord_def deleteRecord_def updateRecord_def logPrintf_def Let_def)

lemma createRecord_targets:
  "length (Targets e) \<noteq> 1 \<Longrightarrow> \<exists>lg. createRecord pkg p m e w = w\<lparr>logs := logs w @ [lg]\<rparr>"
  unfolding createRecord_def logPrintf_def Let_def by (simp only: if_True if_False split: if_splits) blast

lemma updateRecord_targets:
  "length (Targets e) \<noteq> 1 \<Longrightarrow> \<exists>lg. updateRecord pkg p m e w = w\<lparr>logs := logs w @ [lg]\<rparr>"
  unfolding updateRecord_def logPrintf_def Let_def by (simp only: if_True if_False split: if_splits) blast

text \<open>
  C6. An endpoint anywhere in the create list or in the update list whose number of
  targets is not 1 adds one line to the log and no call to the history, and the loop
  goes on with the endpoints after it.
\<close>

theorem not_one_target_is_skipped:
  assumes "length (Targets e) \<noteq> 1"
  shows
    "(let w1 = createRecords pkg p m es1 w in
        \<exists>lg. createRecords pkg p m (es1 @ e # es2) w =
          createRecords pkg p m es2 (w1\<lparr>logs := logs w1 @ [lg]\<rparr>)) \<and>
     (let w1 = updateRecords pkg p m es1 w in
        \<exists>lg. updateRecords pkg p m (es1 @ e # es2) w =
          updateRecords pkg p m es2 (w1\<lparr>logs := logs w1 @ [lg]\<rparr>))"
proof -
  obtain lg1 where "createRecord pkg p m e (createRecords pkg p m es1 w) =
      (createRecords pkg p m es1 w)\<lparr>logs := logs (createRecords pkg p m es1 w) @ [lg1]\<rparr>"
    using createRecord_targets [OF assms] by blast
  moreover obtain lg2 where "updateRecord pkg p m e (updateRecords pkg p m es1 w) =
      (updateRecords pkg p m es1 w)\<lparr>logs := logs (updateRecords pkg p m es1 w) @ [lg2]\<rparr>"
    using updateRecord_targets [OF assms] by blast
  ultimately show ?thesis
    by (auto simp: createRecords_append updateRecords_append Let_def)
qed

lemma deleteRecord_ambiguous:
  assumes "domainFilter p (DNSName e)" and "owningZone pkg m e \<noteq> ''''"
    and "case GetInts (client p) (trace w) (lookupURL pkg m e) of
           Inl err \<Rightarrow> True | Inr ids \<Rightarrow> length ids \<noteq> 1"
  shows "\<exists>r lgs. deleteRecord pkg p m e w =
           w\<lparr>trace := trace w @ [(GET (lookupURL pkg m e), r)], logs := logs w @ lgs\<rparr>"
proof (cases "GetInts (client p) (trace w) (lookupURL pkg m e)")
  case (Inl err)
  with assms(1,2) have "deleteRecord pkg p m e w =
      w\<lparr>trace := trace w @ [(GET (lookupURL pkg m e), Failed err)],
        logs := logs w @
          [Printf ''Cannot to delete OVH endpoint DNSName: '%s' RecordType: '%s', Endpoint does not exist or id is ambiguous''
             [Str (DNSName e), Str (RecordType e)],
           Printf ''Error was: %s'' [Err (Some err)]]\<rparr>"
    by (simp add: deleteRecord_def Let_def client_GetInts_def owningZone_def lookupURL_def
        logPrintf_def observe_def)
  then show ?thesis by blast
next
  case (Inr ids)
  with assms have "deleteRecord pkg p m e w =
      w\<lparr>trace := trace w @ [(GET (lookupURL pkg m e), Ints ids)],
        logs := logs w @
          [Printf ''Cannot to delete OVH endpoint DNSName: '%s' RecordType: '%s', Endpoint does not exist or id is ambiguous''
             [Str (DNSName e), Str (RecordType e)],
           Printf ''Error was: %s'' [Err None]]\<rparr>"
    by (simp add: deleteRecord_def Let_def client_GetInts_def owningZone_def lookupURL_def
        logPrintf_def observe_def)
  then show ?thesis by blast
qed

lemma updateRecord_ambiguous:
  assumes "domainFilter p (DNSName e)" and "owningZone pkg m e \<noteq> ''''"
    and "length (Targets e) = 1"
    and "case GetInts (client p) (trace w) (lookupURL pkg m e) of
           Inl err \<Rightarrow> True | Inr ids \<Rightarrow> length ids \<noteq> 1"
  shows "\<exists>r lgs. updateRecord pkg p m e w =
           w\<lparr>trace := trace w @ [(GET (lookupURL pkg m e), r)], logs := logs w @ lgs\<rparr>"
proof (cases "GetInts (client p) (trace w) (lookupURL pkg m e)")
  case (Inl err)
  with assms(1-3) have "updateRecord pkg p m e w =
      w\<lparr>trace := trace w @ [(GET (lookupURL pkg m e), Failed err)],
        logs := logs w @
          [Printf ''Cannot to delete OVH endpoint DNSName: '%s' RecordType: '%s', Endpoint does not exist or id is ambiguous''
             [Str (DNSName e), Str (RecordType e)],
           Printf ''Error was: %s'' [Err (Some err)]]\<rparr>"
    by (simp add: updateRecord_def Let_def client_GetInts_def owningZone_def lookupURL_def
        logPrintf_def observe_def)
  then show ?thesis by blast
next
  case (Inr ids)
  with assms have "updateRecord pkg p m e w =
      w\<lparr>trace := trace w @ [(GET (lookupURL pkg m e), Ints ids)],
        logs := logs w @
          [Printf ''Cannot to delete OVH endpoint DNSName: '%s' RecordType: '%s', Endpoint does not exist or id is ambiguous''
             [Str (DNSName e), Str (RecordType e)],
           Printf ''Error was: %s'' [Err None]]\<rparr>"
    by (simp add: updateRecord_def Let_def client_GetInts_def owningZone_def lookupURL_def
        logPrintf_def observe_def)
  then show ?thesis by blast
qed

text \<open>
  C5. Take an endpoint \<open>e\<close> anywhere in the delete list, or with one target anywhere in
  the update list, that passes the domain filter and has a zone. If the lookup of its
  record id fails, or returns a list of ids whose length is not 1, then the only call
  made for \<open>e\<close> is that lookup, and the loop goes on with the endpoints after \<open>e\<close>.
\<close>

theorem ambiguous_lookup_is_skipped:
  assumes "domainFilter p (DNSName e)" and "owningZone pkg m e \<noteq> ''''"
  shows
    "(let w1 = deleteRecords pkg p m es1 w in
        (case GetInts (client p) (trace w1) (lookupURL pkg m e) of
           Inl err \<Rightarrow> True | Inr ids \<Rightarrow> length ids \<noteq> 1) \<longrightarrow>
        (\<exists>r lgs. deleteRecords pkg p m (es1 @ e # es2) w =
           deleteRecords pkg p m es2
             (w1\<lparr>trace := trace w1 @ [(GET (lookupURL pkg m e), r)], logs := logs w1 @ lgs\<rparr>))) \<and>
     (let w1 = updateRecords pkg p m es1 w in
        length (Targets e) = 1 \<and>
        (case GetInts (client p) (trace w1) (lookupURL pkg m e) of
           Inl err \<Rightarrow> True | Inr ids \<Rightarrow> length ids \<noteq> 1) \<longrightarrow>
        (\<exists>r lgs. updateRecords pkg p m (es1 @ e # es2) w =
           updateRecords pkg p m es2
             (w1\<lparr>trace := trace w1 @ [(GET (lookupURL pkg m e), r)], logs := logs w1 @ lgs\<rparr>)))"
proof -
  have "\<exists>r lgs. deleteRecords pkg p m (es1 @ e # es2) w =
           deleteRecords pkg p m es2
             ((deleteRecords pkg p m es1 w)
                \<lparr>trace := trace (deleteRecords pkg p m es1 w) @ [(GET (lookupURL pkg m e), r)],
                  logs := logs (deleteRecords pkg p m es1 w) @ lgs\<rparr>)"
    if amb: "case GetInts (client p) (trace (deleteRecords pkg p m es1 w)) (lookupURL pkg m e) of
           Inl err \<Rightarrow> True | Inr ids \<Rightarrow> length ids \<noteq> 1"
  proof -
    obtain r lgs where "deleteRecord pkg p m e (deleteRecords pkg p m es1 w) =
        (deleteRecords pkg p m es1 w)
          \<lparr>trace := trace (deleteRecords pkg p m es1 w) @ [(GET (lookupURL pkg m e), r)],
            logs := logs (deleteRecords pkg p m es1 w) @ lgs\<rparr>"
      using deleteRecord_ambiguous [OF assms amb] by blast
    then have "deleteRecords pkg p m (es1 @ e # es2) w =
           deleteRecords pkg p m es2
             ((deleteRecords pkg p m es1 w)
                \<lparr>trace := trace (deleteRecords pkg p m es1 w) @ [(GET (lookupURL pkg m e), r)],
                  logs := logs (deleteRecords pkg p m es1 w) @ lgs\<rparr>)"
      by (simp add: deleteRecords_append)
    then show ?thesis by blast
  qed
  moreover have "\<exists>r lgs. updateRecords pkg p m (es1 @ e # es2) w =
           updateRecords pkg p m es2
             ((updateRecords pkg p m es1 w)
                \<lparr>trace := trace (updateRecords pkg p m es1 w) @ [(GET (lookupURL pkg m e), r)],
                  logs := logs (updateRecords pkg p m es1 w) @ lgs\<rparr>)"
    if amb: "length (Targets e) = 1"
      "case GetInts (client p) (trace (updateRecords pkg p m es1 w)) (lookupURL pkg m e) of
           Inl err \<Rightarrow> True | Inr ids \<Rightarrow> length ids \<noteq> 1"
  proof -
    obtain r lgs where "updateRecord pkg p m e (updateRecords pkg p m es1 w) =
        (updateRecords pkg p m es1 w)
          \<lparr>trace := trace (updateRecords pkg p m es1 w) @ [(GET (lookupURL pkg m e), r)],
            logs := logs (updateRecords pkg p m es1 w) @ lgs\<rparr>"
      using updateRecord_ambiguous [OF assms amb] by blast
    then have "updateRecords pkg p m (es1 @ e # es2) w =
           updateRecords pkg p m es2
             ((updateRecords pkg p m es1 w)
                \<lparr>trace := trace (updateRecords pkg p m es1 w) @ [(GET (lookupURL pkg m e), r)],
                  logs := logs (updateRecords pkg p m es1 w) @ lgs\<rparr>)"
      by (simp add: updateRecords_append)
    then show ?thesis by blast
  qed
  ultimately show ?thesis
    by (simp add: Let_def)
qed

subsection \<open>Delete does not look at the targets\<close>

lemma deleteRecord_calls:
  assumes "domainFilter p (DNSName e)" and "owningZone pkg m e \<noteq> ''''"
  shows "map fst (trace (deleteRecord pkg p m e w)) =
     map fst (trace w) @ GET (lookupURL pkg m e) #
       (case GetInts (client p) (trace w) (lookupURL pkg m e) of
          Inl err \<Rightarrow> []
        | Inr ids \<Rightarrow>
            if length ids = 1 \<and> \<not> dryRun p
            then [DELETE (zoneRecordURL (owningZone pkg m e) (ids ! 0))] else [])"
  using assms
  by (simp add: deleteRecord_def Let_def client_defs owningZone_def lookupURL_def
      split: sum.splits option.splits)

lemma deleteRecord_Targets:
  "trace w = trace w' \<Longrightarrow>
   trace (deleteRecord pkg p m (e\<lparr>Targets := ts\<rparr>) w) = trace (deleteRecord pkg p m e w')"
  by (simp add: deleteRecord_def Let_def client_defs split: sum.splits option.splits)

lemma deleteRecords_Targets:
  "trace w = trace w' \<Longrightarrow>
   trace (deleteRecords pkg p m (map (\<lambda>e. e\<lparr>Targets := ts e\<rparr>) es) w) =
   trace (deleteRecords pkg p m es w')"
proof (induction es arbitrary: w w')
  case Nil
  then show ?case by simp
next
  case (Cons e es)
  have "trace (deleteRecord pkg p m (e\<lparr>Targets := ts e\<rparr>) w) = trace (deleteRecord pkg p m e w')"
    using Cons.prems by (rule deleteRecord_Targets)
  then show ?case
    by (simp add: Cons.IH)
qed

text \<open>
  C10. For an endpoint \<open>e\<close> anywhere in the delete list that passes the domain filter
  and has a zone, the calls of the run are: the calls made for the endpoints before
  \<open>e\<close>, then the lookup of the record id of \<open>e\<close> and, when the lookup returns exactly
  one id outside a dry run, the DELETE of that record, then the calls made for the
  endpoints after \<open>e\<close>. The targets play no part: replacing the targets of the
  endpoints of the list by any others leaves the history of the run unchanged.
\<close>

theorem deleteRecords_ignores_targets:
  assumes "domainFilter p (DNSName e)" and "owningZone pkg m e \<noteq> ''''"
  shows
    "(let w1 = deleteRecords pkg p m es1 w in
        \<exists>rest. map fst (trace (deleteRecords pkg p m (es1 @ e # es2) w)) =
          map fst (trace w1) @ GET (lookupURL pkg m e) #
            (case GetInts (client p) (trace w1) (lookupURL pkg m e) of
               Inl err \<Rightarrow> []
             | Inr ids \<Rightarrow>
                 if length ids = 1 \<and> \<not> dryRun p
                 then [DELETE (zoneRecordURL (owningZone pkg m e) (ids ! 0))] else []) @ rest) \<and>
     trace (deleteRecords pkg p m (map (\<lambda>e. e\<lparr>Targets := ts e\<rparr>) (es1 @ e # es2)) w) =
       trace (deleteRecords pkg p m (es1 @ e # es2) w)"
proof -
  let ?w1 = "deleteRecords pkg p m es1 w"
  let ?w2 = "deleteRecord pkg p m e ?w1"
  let ?calls = "GET (lookupURL pkg m e) #
      (case GetInts (client p) (trace ?w1) (lookupURL pkg m e) of
         Inl err \<Rightarrow> []
       | Inr ids \<Rightarrow>
           if length ids = 1 \<and> \<not> dryRun p
           then [DELETE (zoneRecordURL (owningZone pkg m e) (ids ! 0))] else [])"
  have run: "deleteRecords pkg p m (es1 @ e # es2) w = deleteRecords pkg p m es2 ?w2"
    by (simp add: deleteRecords_append)
  obtain evs where evs: "trace (deleteRecords pkg p m es2 ?w2) = trace ?w2 @ evs"
    using deleteRecords_absorbs by blast
  have "map fst (trace ?w2) = map fst (trace ?w1) @ ?calls"
    using assms by (rule deleteRecord_calls)
  then have "map fst (trace (deleteRecords pkg p m (es1 @ e # es2) w)) =
      map fst (trace ?w1) @ ?calls @ map fst evs"
    using run evs by simp
  then have "\<exists>rest. map fst (trace (deleteRecords pkg p m (es1 @ e # es2) w)) =
      map fst (trace ?w1) @ ?calls @ rest"
    by (rule exI [where x = "map fst evs"])
  moreover have "trace (deleteRecords pkg p m (map (\<lambda>e. e\<lparr>Targets := ts e\<rparr>) (es1 @ e # es2)) w) =
       trace (deleteRecords pkg p m (es1 @ e # es2) w)"
    by (rule deleteRecords_Targets) simp
  ultimately show ?thesis
    by (simp add: Let_def)
qed

section \<open>Records\<close>

lemma failFast_done: "failFast w (Inr v, w)"
  by (simp add: failFast_def)

lemma failFast_failed: "failFast w (Inl err, observe c (Failed err) w)"
  by (simp add: failFast_def)

lemma failFast_after:
  assumes "\<forall>err. r \<noteq> Failed err" and "failFast (observe c r w) res"
  shows "failFast w res"
proof -
  obtain evs where evs: "trace (snd res) = trace (observe c r w) @ evs" "logs (snd res) = logs w"
    "case fst res of
       Inl err \<Rightarrow> \<exists>evs0 c. evs = evs0 @ [(c, Failed err)] \<and> failures evs0 = []
     | Inr v \<Rightarrow> failures evs = []"
    using assms(2) by (auto simp: failFast_def)
  have ok: "failures [(c, r)] = []"
    using assms(1) by (cases r) auto
  have "trace (snd res) = trace w @ ((c, r) # evs)"
    using evs(1) by simp
  moreover have "case fst res of
       Inl err \<Rightarrow> \<exists>evs0 c'. (c, r) # evs = evs0 @ [(c', Failed err)] \<and> failures evs0 = []
     | Inr v \<Rightarrow> failures ((c, r) # evs) = []"
  proof (cases "fst res")
    case (Inl err)
    then obtain evs0 c' where "evs = evs0 @ [(c', Failed err)]" "failures evs0 = []"
      using evs(3) by auto
    then have "(c, r) # evs = ((c, r) # evs0) @ [(c', Failed err)] \<and> failures ((c, r) # evs0) = []"
      using ok by (cases r) simp_all
    then show ?thesis
      using Inl by (simp only: sum.case) blast
  next
    case (Inr v)
    then show ?thesis
      using evs(3) ok by (cases r) simp_all
  qed
  ultimately show ?thesis
    using evs(2) unfolding failFast_def by blast
qed

lemma failFast_then:
  assumes "failFast w (Inr v, w')" and "failFast w' res"
  shows "failFast w res"
proof -
  obtain evs1 where 1: "trace w' = trace w @ evs1" "logs w' = logs w" "failures evs1 = []"
    using assms(1) by (auto simp: failFast_def)
  obtain evs2 where 2: "trace (snd res) = trace w' @ evs2" "logs (snd res) = logs w'"
    "case fst res of
       Inl err \<Rightarrow> \<exists>evs0 c. evs2 = evs0 @ [(c, Failed err)] \<and> failures evs0 = []
     | Inr v \<Rightarrow> failures evs2 = []"
    using assms(2) by (auto simp: failFast_def)
  have "trace (snd res) = trace w @ (evs1 @ evs2)"
    using 1(1) 2(1) by simp
  moreover have "case fst res of
       Inl err \<Rightarrow> \<exists>evs0 c. evs1 @ evs2 = evs0 @ [(c, Failed err)] \<and> failures evs0 = []
     | Inr v \<Rightarrow> failures (evs1 @ evs2) = []"
  proof (cases "fst res")
    case (Inl err)
    then obtain evs0 c where "evs2 = evs0 @ [(c, Failed err)]" "failures evs0 = []"
      using 2(3) by auto
    then have "evs1 @ evs2 = (evs1 @ evs0) @ [(c, Failed err)] \<and> failures (evs1 @ evs0) = []"
      using 1(3) by simp
    then show ?thesis
      using Inl by (simp only: sum.case) blast
  next
    case (Inr v)
    then show ?thesis
      using 2(3) 1(3) by simp
  qed
  ultimately show ?thesis
    using 1(2) 2(2) unfolding failFast_def by force
qed

lemma Records_zone_failFast: "failFast w (Records_zone pkg p zone recordIDs endpoints w)"
proof (induction recordIDs arbitrary: endpoints w)
  case Nil
  show ?case by (simp add: failFast_done)
next
  case (Cons recordID recordIDs)
  show ?case
  proof (cases "GetRecord (client p) (trace w) (zoneRecordURL zone recordID)")
    case (Inl err)
    then show ?thesis
      by (simp add: client_GetRecord_def failFast_failed)
  next
    case (Inr fetched)
    let ?w' = "observe (GET (zoneRecordURL zone recordID)) (Record fetched) w"
    have "failFast ?w' (Records_zone pkg p zone (recordID # recordIDs) endpoints w)"
      using Inr Cons.IH by (simp add: client_GetRecord_def)
    then show ?thesis
      by (rule failFast_after [rotated]) simp
  qed
qed

lemma Records_zones_failFast: "failFast w (Records_zones pkg p zones endpoints w)"
proof (induction zones arbitrary: endpoints w)
  case Nil
  show ?case by (simp add: failFast_done)
next
  case (Cons zone zones)
  show ?case
  proof (cases "domainFilter p zone")
    case False
    then show ?thesis
      using Cons.IH by simp
  next
    case True
    show ?thesis
    proof (cases "GetInts (client p) (trace w) (zoneRecordsURL zone)")
      case (Inl err)
      then show ?thesis
        using True by (simp add: client_GetInts_def failFast_failed)
    next
      case (Inr recordIDs)
      let ?w' = "observe (GET (zoneRecordsURL zone)) (Ints recordIDs) w"
      let ?inner = "Records_zone pkg p zone recordIDs endpoints ?w'"
      have inner: "failFast ?w' ?inner"
        by (rule Records_zone_failFast)
      have step: "Records_zones pkg p (zone # zones) endpoints w =
          (case ?inner of
             (Inl err, w'') \<Rightarrow> (Inl err, w'')
           | (Inr endpoints', w'') \<Rightarrow> Records_zones pkg p zones endpoints' w'')"
        using True Inr by (simp add: client_GetInts_def)
      have "failFast ?w' (Records_zones pkg p (zone # zones) endpoints w)"
      proof (cases ?inner)
        case (Pair res w'')
        show ?thesis
        proof (cases res)
          case (Inl err)
          then show ?thesis
            unfolding step using inner Pair by simp
        next
          case (Inr endpoints')
          have "failFast ?w' (Inr endpoints', w'')"
            using inner Pair Inr by simp
          then have "failFast ?w' (Records_zones pkg p zones endpoints' w'')"
            using Cons.IH by (rule failFast_then)
          then show ?thesis
            unfolding step using Pair Inr by simp
        qed
      qed
      then show ?thesis
        by (rule failFast_after [rotated]) simp
    qed
  qed
qed

lemma Records_failFast: "failFast w (Records pkg p w)"
proof (cases "GetStrings (client p) (trace w) ''/domain/zone''")
  case (Inl err)
  then show ?thesis
    by (simp add: Records_def getZones_eq failFast_failed)
next
  case (Inr zones)
  have "failFast (observe (GET ''/domain/zone'') (Strings zones) w) (Records pkg p w)"
    using Inr by (simp add: Records_def getZones_eq Records_zones_failFast)
  then show ?thesis
    by (rule failFast_after [rotated]) simp
qed

text \<open>
  C3. \<open>Records\<close> only adds calls to the history and writes nothing to the log. When it
  returns an error, that error is the one of the last call it made, and no call
  before it failed; when it returns endpoints, no call failed. So a failure of the
  zone listing, of a record listing or of a record fetch ends the run with that
  error and without a list of endpoints.
\<close>

theorem Records_fail_fast:
  "\<exists>evs. trace (snd (Records pkg p w)) = trace w @ evs \<and>
     logs (snd (Records pkg p w)) = logs w \<and>
     (case fst (Records pkg p w) of
        Inl err \<Rightarrow> \<exists>evs0 c. evs = evs0 @ [(c, Failed err)] \<and> failures evs0 = []
      | Inr endpoints \<Rightarrow> failures evs = [])"
  using Records_failFast [of w pkg p] by (simp add: failFast_def)

subsection \<open>What Records returns\<close>

lemma Records_zone_result:
  assumes "\<forall>h. \<forall>i \<in> set recordIDs. GetRecord (client p) h (zoneRecordURL zone i) = Inr (fetched i)"
  shows "fst (Records_zone pkg p zone recordIDs endpoints w) =
     Inr (endpoints @ concat (map (\<lambda>i.
            if supportedRecordType pkg (FieldType (fetched i))
            then [NewEndpointWithTTL (formatOVHDNSName (SubDomain (fetched i)) zone)
                    (FieldType (fetched i)) (TTL (fetched i)) [Target (fetched i)]]
            else []) recordIDs))"
  using assms
  by (induction recordIDs arbitrary: endpoints w) (simp_all add: client_GetRecord_def)

lemma Records_zones_result:
  assumes "\<forall>h. \<forall>zone \<in> set zones. domainFilter p zone \<longrightarrow>
             GetInts (client p) h (zoneRecordsURL zone) = Inr (ids zone)"
    and "\<forall>h. \<forall>zone \<in> set zones. domainFilter p zone \<longrightarrow>
           (\<forall>i \<in> set (ids zone). GetRecord (client p) h (zoneRecordURL zone i) = Inr (fetched zone i))"
  shows "fst (Records_zones pkg p zones endpoints w) =
     Inr (endpoints @ concat (map (\<lambda>zone. concat (map (\<lambda>i.
            if supportedRecordType pkg (FieldType (fetched zone i))
            then [NewEndpointWithTTL (formatOVHDNSName (SubDomain (fetched zone i)) zone)
                    (FieldType (fetched zone i)) (TTL (fetched zone i)) [Target (fetched zone i)]]
            else []) (ids zone))) (filter (domainFilter p) zones)))"
  using assms
proof (induction zones arbitrary: endpoints w)
  case Nil
  show ?case by simp
next
  case (Cons zone zones)
  have IH: "fst (Records_zones pkg p zones endpoints' w') =
     Inr (endpoints' @ concat (map (\<lambda>zone. concat (map (\<lambda>i.
            if supportedRecordType pkg (FieldType (fetched zone i))
            then [NewEndpointWithTTL (formatOVHDNSName (SubDomain (fetched zone i)) zone)
                    (FieldType (fetched zone i)) (TTL (fetched zone i)) [Target (fetched zone i)]]
            else []) (ids zone))) (filter (domainFilter p) zones)))" for endpoints' w'
    using Cons.IH Cons.prems by simp
  show ?case
  proof (cases "domainFilter p zone")
    case False
    then show ?thesis
      by (simp add: IH)
  next
    case True
    let ?w' = "observe (GET (zoneRecordsURL zone)) (Ints (ids zone)) w"
    let ?new = "concat (map (\<lambda>i.
            if supportedRecordType pkg (FieldType (fetched zone i))
            then [NewEndpointWithTTL (formatOVHDNSName (SubDomain (fetched zone i)) zone)
                    (FieldType (fetched zone i)) (TTL (fetched zone i)) [Target (fetched zone i)]]
            else []) (ids zone))"
    have ids: "GetInts (client p) (trace w) (zoneRecordsURL zone) = Inr (ids zone)"
      using Cons.prems(1) True by simp
    have "\<forall>h. \<forall>i \<in> set (ids zone). GetRecord (client p) h (zoneRecordURL zone i) = Inr (fetched zone i)"
      using Cons.prems(2) True by simp
    then have "fst (Records_zone pkg p zone (ids zone) endpoints ?w') = Inr (endpoints @ ?new)"
      by (rule Records_zone_result)
    then obtain w'' where inner: "Records_zone pkg p zone (ids zone) endpoints ?w' = (Inr (endpoints @ ?new), w'')"
      by (cases "Records_zone pkg p zone (ids zone) endpoints ?w'") simp
    have "Records_zones pkg p (zone # zones) endpoints w = Records_zones pkg p zones (endpoints @ ?new) w''"
      using True ids inner by (simp add: client_GetInts_def)
    then show ?thesis
      using True by (simp add: IH)
  qed
qed

lemma Records_stateless_remote:
  assumes "\<forall>h. GetStrings (client p) h ''/domain/zone'' = Inr zones"
    and "\<forall>h. \<forall>zone \<in> set zones. domainFilter p zone \<longrightarrow>
           GetInts (client p) h (zoneRecordsURL zone) = Inr (ids zone)"
    and "\<forall>h. \<forall>zone \<in> set zones. domainFilter p zone \<longrightarrow>
           (\<forall>i \<in> set (ids zone). GetRecord (client p) h (zoneRecordURL zone i) = Inr (fetched zone i))"
  shows "fst (Records pkg p w) =
     Inr (concat (map (\<lambda>zone. concat (map (\<lambda>i.
            if supportedRecordType pkg (FieldType (fetched zone i))
            then [\<lparr>DNSName = (if SubDomain (fetched zone i) = '''' then zone
                               else SubDomain (fetched zone i) @ ''.'' @ zone),
                   Targets = [Target (fetched zone i)],
                   RecordType = FieldType (fetched zone i),
                   RecordTTL = TTL (fetched zone i)\<rparr>]
            else []) (ids zone))) (filter (domainFilter p) zones)))"
proof -
  let ?w' = "observe (GET ''/domain/zone'') (Strings zones) w"
  have "Records pkg p w = Records_zones pkg p zones [] ?w'"
    using assms(1) by (simp add: Records_def getZones_eq)
  then have "fst (Records pkg p w) = fst (Records_zones pkg p zones [] ?w')"
    by simp
  also have "\<dots> = Inr ([] @ concat (map (\<lambda>zone. concat (map (\<lambda>i.
            if supportedRecordType pkg (FieldType (fetched zone i))
            then [NewEndpointWithTTL (formatOVHDNSName (SubDomain (fetched zone i)) zone)
                    (FieldType (fetched zone i)) (TTL (fetched zone i)) [Target (fetched zone i)]]
            else []) (ids zone))) (filter (domainFilter p) zones)))"
    using assms(2,3) by (rule Records_zones_result)
  finally show ?thesis
    unfolding NewEndpointWithTTL_def formatOVHDNSName_def by simp
qed

lemma Records_zone_run:
  assumes "Records_zone pkg p zone recordIDs endpoints w = (Inr endpoints', w')"
  shows "\<exists>recs. map fst recs = recordIDs \<and>
     trace w' = trace w @ map (fetchEvents zone) recs \<and> logs w' = logs w \<and>
     endpoints' = endpoints @ concat (map (\<lambda>f. endpointsOf pkg zone (snd f)) recs)"
  using assms
proof (induction recordIDs arbitrary: endpoints w)
  case Nil
  then show ?case by simp
next
  case (Cons recordID recordIDs)
  show ?case
  proof (cases "GetRecord (client p) (trace w) (zoneRecordURL zone recordID)")
    case (Inl err)
    then show ?thesis
      using Cons.prems by (simp add: client_GetRecord_def)
  next
    case (Inr r)
    let ?w1 = "observe (GET (zoneRecordURL zone recordID)) (Record r) w"
    have "Records_zone pkg p zone recordIDs (endpoints @ endpointsOf pkg zone r) ?w1 =
        (Inr endpoints', w')"
      using Cons.prems Inr by (simp add: client_GetRecord_def endpointsOf_def split: if_splits)
    then obtain recs where recs: "map fst recs = recordIDs"
      "trace w' = trace ?w1 @ map (fetchEvents zone) recs" "logs w' = logs ?w1"
      "endpoints' = (endpoints @ endpointsOf pkg zone r) @
         concat (map (\<lambda>f. endpointsOf pkg zone (snd f)) recs)"
      using Cons.IH by blast
    let ?recs = "(recordID, r) # recs"
    have "map fst ?recs = recordID # recordIDs \<and>
        trace w' = trace w @ map (fetchEvents zone) ?recs \<and> logs w' = logs w \<and>
        endpoints' = endpoints @ concat (map (\<lambda>f. endpointsOf pkg zone (snd f)) ?recs)"
      using recs by (simp add: fetchEvents_def)
    then show ?thesis
      by (rule exI [where x = ?recs])
  qed
qed

lemma Records_zones_run:
  assumes "Records_zones pkg p zones endpoints w = (Inr endpoints', w')"
  shows "\<exists>fetched. map fst fetched = filter (domainFilter p) zones \<and>
     trace w' = trace w @ concat (map zoneEvents fetched) \<and> logs w' = logs w \<and>
     endpoints' = endpoints @
       concat (map (\<lambda>z. concat (map (\<lambda>f. endpointsOf pkg (fst z) (snd f)) (snd z))) fetched)"
  using assms
proof (induction zones arbitrary: endpoints w)
  case Nil
  then show ?case by simp
next
  case (Cons zone zones)
  show ?case
  proof (cases "domainFilter p zone")
    case False
    then have "Records_zones pkg p zones endpoints w = (Inr endpoints', w')"
      using Cons.prems by simp
    then show ?thesis
      using Cons.IH False by simp
  next
    case True
    show ?thesis
    proof (cases "GetInts (client p) (trace w) (zoneRecordsURL zone)")
      case (Inl err)
      then show ?thesis
        using Cons.prems True by (simp add: client_GetInts_def)
    next
      case (Inr recordIDs)
      let ?w1 = "observe (GET (zoneRecordsURL zone)) (Ints recordIDs) w"
      obtain res w2 where inner: "Records_zone pkg p zone recordIDs endpoints ?w1 = (res, w2)"
        by (cases "Records_zone pkg p zone recordIDs endpoints ?w1")
      have step: "Records_zones pkg p (zone # zones) endpoints w =
          (case res of Inl err \<Rightarrow> (Inl err, w2) | Inr endpoints1 \<Rightarrow> Records_zones pkg p zones endpoints1 w2)"
        using True Inr inner by (simp add: client_GetInts_def split: sum.splits)
      show ?thesis
      proof (cases res)
        case (Inl err)
        then show ?thesis
          using Cons.prems step by simp
      next
        case (Inr endpoints1)
        have rest: "Records_zones pkg p zones endpoints1 w2 = (Inr endpoints', w')"
          using Cons.prems step Inr by simp
        obtain recs where recs: "map fst recs = recordIDs"
          "trace w2 = trace ?w1 @ map (fetchEvents zone) recs" "logs w2 = logs ?w1"
          "endpoints1 = endpoints @ concat (map (\<lambda>f. endpointsOf pkg zone (snd f)) recs)"
          using Records_zone_run inner Inr by blast
        obtain fetched where fetched: "map fst fetched = filter (domainFilter p) zones"
          "trace w' = trace w2 @ concat (map zoneEvents fetched)" "logs w' = logs w2"
          "endpoints' = endpoints1 @
             concat (map (\<lambda>z. concat (map (\<lambda>f. endpointsOf pkg (fst z) (snd f)) (snd z))) fetched)"
          using Cons.IH rest by blast
        let ?fetched = "(zone, recs) # fetched"
        have "map fst ?fetched = filter (domainFilter p) (zone # zones) \<and>
            trace w' = trace w @ concat (map zoneEvents ?fetched) \<and> logs w' = logs w \<and>
            endpoints' = endpoints @
              concat (map (\<lambda>z. concat (map (\<lambda>f. endpointsOf pkg (fst z) (snd f)) (snd z))) ?fetched)"
          using fetched recs True by (simp add: zoneEvents_def)
        then show ?thesis
          by (rule exI [where x = ?fetched])
      qed
    qed
  qed
qed

text \<open>
  C1. When \<open>Records\<close> returns endpoints, its calls were the zone listing and then, for
  each listed zone that the domain filter matches and in the order of the listing,
  the listing of the record ids of the zone and the fetch of each of these records.
  The endpoints returned are, in that order, one endpoint for each fetched record
  whose field type is in the allow-list and none for the others. The endpoint has
  the name \<open>subDomain + "." + zone\<close> (the bare zone when the sub-domain is empty), the
  field type of the record as its type, the TTL of the record, and the target of the
  record as its only target. (The endpoint is built by \<open>NewEndpointWithTTL\<close>, which
  is modelled from the spec.)
\<close>

theorem Records_endpoints:
  assumes "Records pkg p w = (Inr endpoints, w')"
  shows "\<exists>zones fetched.
     trace w' = trace w @ (GET ''/domain/zone'', Strings zones) #
       concat (map (\<lambda>(zone, recs).
          (GET (zoneRecordsURL zone), Ints (map fst recs)) #
          map (\<lambda>(recordID, r). (GET (zoneRecordURL zone recordID), Record r)) recs) fetched) \<and>
     map fst fetched = filter (domainFilter p) zones \<and>
     endpoints = concat (map (\<lambda>(zone, recs). concat (map (\<lambda>(recordID, r).
        if supportedRecordType pkg (FieldType r)
        then [\<lparr>DNSName = (if SubDomain r = '''' then zone else SubDomain r @ ''.'' @ zone),
               Targets = [Target r], RecordType = FieldType r, RecordTTL = TTL r\<rparr>]
        else []) recs)) fetched)"
proof (cases "GetStrings (client p) (trace w) ''/domain/zone''")
  case (Inl err)
  then show ?thesis
    using assms by (simp add: Records_def getZones_eq)
next
  case (Inr zones)
  let ?w1 = "observe (GET ''/domain/zone'') (Strings zones) w"
  have "Records_zones pkg p zones [] ?w1 = (Inr endpoints, w')"
    using assms Inr by (simp add: Records_def getZones_eq)
  then obtain fetched where fetched: "map fst fetched = filter (domainFilter p) zones"
    "trace w' = trace ?w1 @ concat (map zoneEvents fetched)"
    "endpoints = [] @
       concat (map (\<lambda>z. concat (map (\<lambda>f. endpointsOf pkg (fst z) (snd f)) (snd z))) fetched)"
    using Records_zones_run by blast
  have zoneEvents: "zoneEvents = (\<lambda>(zone, recs).
          (GET (zoneRecordsURL zone), Ints (map fst recs)) #
          map (\<lambda>(recordID, r). (GET (zoneRecordURL zone recordID), Record r)) recs)"
    by (auto simp: zoneEvents_def fetchEvents_def fun_eq_iff)
  have endpointsOf: "(\<lambda>z. concat (map (\<lambda>f. endpointsOf pkg (fst z) (snd f)) (snd z))) =
      (\<lambda>(zone, recs). concat (map (\<lambda>(recordID, r).
        if supportedRecordType pkg (FieldType r)
        then [\<lparr>DNSName = (if SubDomain r = '''' then zone else SubDomain r @ ''.'' @ zone),
               Targets = [Target r], RecordType = FieldType r, RecordTTL = TTL r\<rparr>]
        else []) recs))"
    unfolding endpointsOf_def NewEndpointWithTTL_def formatOVHDNSName_def
    by (auto simp: fun_eq_iff intro!: arg_cong [where f = concat])
  have "trace w' = trace w @ (GET ''/domain/zone'', Strings zones) # concat (map zoneEvents fetched)"
    using fetched(2) by simp
  then show ?thesis
    using fetched(1,3) unfolding zoneEvents endpointsOf by auto
qed

section \<open>The example account\<close>

lemmas example_defs = examplePackage_def exampleClient_def exampleProvider_def openProvider_def
  emptyWorld_def exampleTable_def apiEndpoint_def failingEndpoint_def twoTargetsEndpoint_def
  foreignEndpoint_def oldEndpoint_def goneEndpoint_def wwwEndpoint_def exampleChanges_def
  wwwRecord_def mxRecord_def

lemmas eval_defs = HasSuffix_def TrimSuffix_def fmt_d_def decimal.simps digit10_def
  getOVHSubDomain_def formatOVHDNSName_def zoneRecordsURL_def zoneRecordURL_def
  zoneRecordFilterURL_def owningZone_def lookupURL_def recordOf_def zoneTable_def
  FindZoneLongestSuffix_def

lemma exampleTable_zones:
  "owningZone examplePackage exampleTable oldEndpoint = ''example.com''"
  "owningZone examplePackage exampleTable goneEndpoint = ''example.com''"
  "owningZone examplePackage exampleTable (wwwEndpoint\<lparr>Targets := ts\<rparr>) = ''example.com''"
  "lookupURL examplePackage exampleTable oldEndpoint =
     ''/domain/zone/example.com/record?fieldType=CNAME&subDomain=old''"
  "lookupURL examplePackage exampleTable (wwwEndpoint\<lparr>Targets := ts\<rparr>) =
     ''/domain/zone/example.com/record?fieldType=A&subDomain=www''"
  by (simp_all add: example_defs eval_defs)

lemma exampleProvider_filter:
  "domainFilter (exampleProvider dry) (DNSName oldEndpoint)"
  "domainFilter (exampleProvider dry) (DNSName (wwwEndpoint\<lparr>Targets := ts\<rparr>))"
  by (simp_all add: example_defs eval_defs)

text \<open>The sub-domain of the zone itself is empty, and the one of \<open>www.example.com\<close> is not.\<close>

theorem getOVHSubDomain_empty_iff_witness:
  "''example.com'' \<noteq> '''' \<and> hd ''example.com'' \<noteq> CHR ''.'' \<and>
   ''www.example.com'' \<noteq> '''' \<and> hd ''www.example.com'' \<noteq> CHR ''.'' \<and>
   getOVHSubDomain ''example.com'' ''example.com'' = '''' \<and>
   getOVHSubDomain ''www.example.com'' ''example.com'' \<noteq> ''''"
proof -
  have 1: "''example.com'' \<noteq> ''''" "hd ''example.com'' \<noteq> CHR ''.''"
    by simp_all
  have 2: "''www.example.com'' \<noteq> ''''" "hd ''www.example.com'' \<noteq> CHR ''.''"
    by simp_all
  show ?thesis
    using getOVHSubDomain_empty_iff [OF 1, of "''example.com''"]
      getOVHSubDomain_empty_iff [OF 2, of "''example.com''"]
    by simp
qed

text \<open>
  The provider for \<open>example.com\<close> reads the \<open>A\<close> record of \<open>www\<close> and leaves the
  \<open>MX\<close> record out.
\<close>

theorem Records_endpoints_witness:
  "Records examplePackage (exampleProvider False) emptyWorld =
     (Inr [\<lparr>DNSName = ''www.example.com'', Targets = [''1.2.3.4''], RecordType = ''A'',
            RecordTTL = 300\<rparr>],
      snd (Records examplePackage (exampleProvider False) emptyWorld)) \<and>
   (\<exists>fetched.
      trace (snd (Records examplePackage (exampleProvider False) emptyWorld)) =
        (GET ''/domain/zone'', Strings [''example.com'', ''example.org'']) #
          concat (map (\<lambda>(zone, recs).
            (GET (zoneRecordsURL zone), Ints (map fst recs)) #
            map (\<lambda>(recordID, r). (GET (zoneRecordURL zone recordID), Record r)) recs) fetched) \<and>
      map fst fetched = [''example.com''])"
proof -
  let ?p = "exampleProvider False"
  let ?www = "\<lparr>DNSName = ''www.example.com'', Targets = [''1.2.3.4''], RecordType = ''A'',
      RecordTTL = 300\<rparr>"
  have zones: "\<forall>h. GetStrings (client ?p) h ''/domain/zone'' = Inr [''example.com'', ''example.org'']"
    by (simp add: example_defs)
  have ids: "\<forall>h. \<forall>zone \<in> set [''example.com'', ''example.org'']. domainFilter ?p zone \<longrightarrow>
      GetInts (client ?p) h (zoneRecordsURL zone) = Inr ((\<lambda>zone. [1, 2]) zone)"
    by (simp add: example_defs eval_defs)
  have recs: "\<forall>h. \<forall>zone \<in> set [''example.com'', ''example.org'']. domainFilter ?p zone \<longrightarrow>
      (\<forall>i \<in> set ((\<lambda>zone. [1, 2]) zone).
         GetRecord (client ?p) h (zoneRecordURL zone i) =
           Inr ((\<lambda>zone i. if i = 1 then wwwRecord else mxRecord) zone i))"
    by (simp add: example_defs eval_defs)
  have "fst (Records examplePackage ?p emptyWorld) = Inr [?www]"
    using Records_stateless_remote [OF zones ids recs, of examplePackage emptyWorld]
    by (simp add: example_defs eval_defs)
  then have run: "Records examplePackage ?p emptyWorld =
      (Inr [?www], snd (Records examplePackage ?p emptyWorld))"
    by (metis prod.collapse)
  have filter: "filter (domainFilter ?p) zones = [''example.com'']"
    if "(GET ''/domain/zone'', Strings zones) = (GET ''/domain/zone'', Strings [''example.com'', ''example.org''])"
    for zones
    using that by (simp add: exampleProvider_def HasSuffix_def)
  obtain zones fetched where run_calls:
    "trace (snd (Records examplePackage ?p emptyWorld)) =
       trace emptyWorld @ (GET ''/domain/zone'', Strings zones) #
         concat (map (\<lambda>(zone, recs).
            (GET (zoneRecordsURL zone), Ints (map fst recs)) #
            map (\<lambda>(recordID, r). (GET (zoneRecordURL zone recordID), Record r)) recs) fetched)"
    and matched: "map fst fetched = filter (domainFilter ?p) zones"
    using Records_endpoints [OF run] by blast
  have first: "trace (snd (Records examplePackage ?p emptyWorld)) ! 0 =
      (GET ''/domain/zone'', Strings [''example.com'', ''example.org''])"
    by (simp add: Records_def getZones_def client_defs example_defs eval_defs)
  have "(GET ''/domain/zone'', Strings zones) =
      (GET ''/domain/zone'', Strings [''example.com'', ''example.org''])"
    using first run_calls by (simp add: emptyWorld_def)
  then have "zones = [''example.com'', ''example.org'']"
    and "map fst fetched = [''example.com'']"
    using matched filter by simp_all
  then show ?thesis
    using run run_calls by (auto simp: emptyWorld_def)
qed

text \<open>
  The provider for all names cannot list the records of \<open>example.org\<close>: the run ends
  with that error, although the records of \<open>example.com\<close> were read before.
\<close>

theorem Records_fail_fast_witness:
  "fst (Records examplePackage openProvider emptyWorld) = Inl (TransportError ''403'') \<and>
   (\<exists>evs0 c. trace (snd (Records examplePackage openProvider emptyWorld)) =
      evs0 @ [(c, Failed (TransportError ''403''))] \<and> failures evs0 = [])"
proof -
  have res: "fst (Records examplePackage openProvider emptyWorld) = Inl (TransportError ''403'')"
    by (simp add: Records_def getZones_def client_defs example_defs eval_defs)
  show ?thesis
    using Records_fail_fast [of examplePackage openProvider emptyWorld] res
    by (simp add: emptyWorld_def)
qed

text \<open>
  A run on the example changes returns nil; the POST for \<open>api\<close> is made after the one
  for \<open>fail\<close> was refused, and the lookups for \<open>old\<close> and \<open>gone\<close> are made.
\<close>

theorem ApplyChanges_absorbs_write_errors_witness:
  "fst (ApplyChanges examplePackage (exampleProvider False) exampleChanges emptyWorld) = None \<and>
   (\<exists>evs lgs.
      trace (snd (ApplyChanges examplePackage (exampleProvider False) exampleChanges emptyWorld)) =
        (GET ''/domain/zone'', Strings [''example.com'', ''example.org'']) # evs \<and>
      logs (snd (ApplyChanges examplePackage (exampleProvider False) exampleChanges emptyWorld)) = lgs \<and>
      failures evs = loggedErrors lgs \<and>
      (\<exists>r. (POST ''/domain/zone/example.com/record''
               \<lparr>ID = 0, Zone = '''', Target = ''5.6.7.8'', TTL = 0, FieldType = ''A'',
                SubDomain = ''api''\<rparr>, r) \<in> set evs) \<and>
      (\<exists>r. (GET ''/domain/zone/example.com/record?fieldType=CNAME&subDomain=old'', r) \<in> set evs) \<and>
      (\<exists>r. (GET ''/domain/zone/example.com/record?fieldType=TXT&subDomain=gone'', r) \<in> set evs))"
proof -
  let ?p = "exampleProvider False"
  let ?m = "zoneTable [''example.com'', ''example.org'']"
  let ?run = "ApplyChanges examplePackage ?p exampleChanges emptyWorld"
  have listing: "GetStrings (client ?p) (trace emptyWorld) ''/domain/zone'' =
      Inr [''example.com'', ''example.org'']"
    by (simp add: exampleProvider_def exampleClient_def)
  have "fst ?run = None \<and>
        (\<exists>evs lgs.
           trace (snd ?run) =
             trace emptyWorld @ (GET ''/domain/zone'', Strings [''example.com'', ''example.org'']) # evs \<and>
           logs (snd ?run) = logs emptyWorld @ lgs \<and>
           failures evs = loggedErrors lgs \<and>
           (\<forall>e \<in> set (Create exampleChanges).
              domainFilter ?p (DNSName e) \<and> owningZone examplePackage ?m e \<noteq> '''' \<and>
              length (Targets e) = 1 \<and> \<not> dryRun ?p \<longrightarrow>
              (\<exists>r. (POST (zoneRecordsURL (owningZone examplePackage ?m e))
                       (recordOf examplePackage ?m e), r) \<in> set evs)) \<and>
           (\<forall>e \<in> set (Delete exampleChanges).
              domainFilter ?p (DNSName e) \<and> owningZone examplePackage ?m e \<noteq> '''' \<longrightarrow>
              (\<exists>r. (GET (lookupURL examplePackage ?m e), r) \<in> set evs)) \<and>
           (\<forall>e \<in> set (UpdateNew exampleChanges).
              domainFilter ?p (DNSName e) \<and> owningZone examplePackage ?m e \<noteq> '''' \<and>
              length (Targets e) = 1 \<longrightarrow>
              (\<exists>r. (GET (lookupURL examplePackage ?m e), r) \<in> set evs)))"
    using ApplyChanges_absorbs_write_errors
      [where p = ?p and w = emptyWorld and pkg = examplePackage and changes = exampleChanges]
    by (simp only: listing sum.case)
  then obtain evs lgs where none: "fst ?run = None"
    and tr: "trace (snd ?run) =
        trace emptyWorld @ (GET ''/domain/zone'', Strings [''example.com'', ''example.org'']) # evs"
    and lg: "logs (snd ?run) = logs emptyWorld @ lgs"
    and fl: "failures evs = loggedErrors lgs"
    and cr: "\<forall>e \<in> set (Create exampleChanges).
              domainFilter ?p (DNSName e) \<and> owningZone examplePackage ?m e \<noteq> '''' \<and>
              length (Targets e) = 1 \<and> \<not> dryRun ?p \<longrightarrow>
              (\<exists>r. (POST (zoneRecordsURL (owningZone examplePackage ?m e))
                       (recordOf examplePackage ?m e), r) \<in> set evs)"
    and de: "\<forall>e \<in> set (Delete exampleChanges).
              domainFilter ?p (DNSName e) \<and> owningZone examplePackage ?m e \<noteq> '''' \<longrightarrow>
              (\<exists>r. (GET (lookupURL examplePackage ?m e), r) \<in> set evs)"
    and up: "\<forall>e \<in> set (UpdateNew exampleChanges).
              domainFilter ?p (DNSName e) \<and> owningZone examplePackage ?m e \<noteq> '''' \<and>
              length (Targets e) = 1 \<longrightarrow>
              (\<exists>r. (GET (lookupURL examplePackage ?m e), r) \<in> set evs)"
    by blast
  have "apiEndpoint \<in> set (Create exampleChanges)"
    by (simp add: exampleChanges_def)
  with cr have "\<exists>r. (POST ''/domain/zone/example.com/record''
               \<lparr>ID = 0, Zone = '''', Target = ''5.6.7.8'', TTL = 0, FieldType = ''A'',
                SubDomain = ''api''\<rparr>, r) \<in> set evs"
    by (simp add: apiEndpoint_def examplePackage_def exampleProvider_def exampleChanges_def eval_defs)
  moreover have "oldEndpoint \<in> set (Delete exampleChanges)"
    by (simp add: exampleChanges_def)
  with de have "\<exists>r. (GET ''/domain/zone/example.com/record?fieldType=CNAME&subDomain=old'', r) \<in> set evs"
    by (simp add: oldEndpoint_def examplePackage_def exampleProvider_def exampleChanges_def eval_defs)
  moreover have "goneEndpoint \<in> set (UpdateNew exampleChanges)"
    by (simp add: exampleChanges_def)
  with up have "\<exists>r. (GET ''/domain/zone/example.com/record?fieldType=TXT&subDomain=gone'', r) \<in> set evs"
    by (simp add: goneEndpoint_def examplePackage_def exampleProvider_def exampleChanges_def eval_defs)
  ultimately show ?thesis
    using none tr lg fl by (simp add: emptyWorld_def)
qed

text \<open>The calls of a dry run on the example changes.\<close>

theorem ApplyChanges_dryRun_witness:
  "dryRun (exampleProvider True) \<and>
   map fst (trace (snd (ApplyChanges examplePackage (exampleProvider True) exampleChanges emptyWorld))) =
     [GET ''/domain/zone'',
      GET ''/domain/zone/example.com/record?fieldType=CNAME&subDomain=old'',
      GET ''/domain/zone/example.com/record?fieldType=A&subDomain=www'',
      GET ''/domain/zone/example.com/record?fieldType=TXT&subDomain=gone'',
      GET ''/domain/zone/example.com/record?fieldType=A&subDomain=www'']"
proof -
  have dry: "dryRun (exampleProvider True)"
    by (simp add: exampleProvider_def)
  show ?thesis
    using ApplyChanges_dryRun [OF dry, where pkg = examplePackage and changes = exampleChanges
        and w = emptyWorld]
    by (simp add: example_defs eval_defs)
qed

text \<open>The endpoint \<open>www.example.org\<close> is outside the domain filter.\<close>

theorem filtered_out_endpoint_is_skipped_witness:
  "\<not> domainFilter (exampleProvider False) (DNSName foreignEndpoint) \<and>
   (let w1 = createRecords examplePackage (exampleProvider False) exampleTable [failingEndpoint] emptyWorld in
      createRecords examplePackage (exampleProvider False) exampleTable
          ([failingEndpoint] @ foreignEndpoint # [apiEndpoint]) emptyWorld =
        createRecords examplePackage (exampleProvider False) exampleTable [apiEndpoint]
          (w1\<lparr>logs := logs w1 @
             [Printf ''Skipping creation at OVH of endpoint DNSName: '%s' RecordType: '%s', it does not match against Domain filters''
                [Str ''www.example.org'', Str ''A'']]\<rparr>)) \<and>
   (let w1 = deleteRecords examplePackage (exampleProvider False) exampleTable [failingEndpoint] emptyWorld in
      deleteRecords examplePackage (exampleProvider False) exampleTable
          ([failingEndpoint] @ foreignEndpoint # [apiEndpoint]) emptyWorld =
        deleteRecords examplePackage (exampleProvider False) exampleTable [apiEndpoint]
          (w1\<lparr>logs := logs w1 @
             [Printf ''Skipping delete at OVH of endpoint DNSName: '%s' RecordType: '%s', it does not match against Domain filters''
                [Str ''www.example.org'', Str ''A'']]\<rparr>)) \<and>
   (let w1 = updateRecords examplePackage (exampleProvider False) exampleTable [failingEndpoint] emptyWorld in
      updateRecords examplePackage (exampleProvider False) exampleTable
          ([failingEndpoint] @ foreignEndpoint # [apiEndpoint]) emptyWorld =
        updateRecords examplePackage (exampleProvider False) exampleTable [apiEndpoint]
          (w1\<lparr>logs := logs w1 @
             [Printf ''Skipping update at OVH of endpoint DNSName: '%s' RecordType: '%s', it does not match against Domain filters''
                [Str ''www.example.org'', Str ''A'']]\<rparr>))"
proof -
  have out: "\<not> domainFilter (exampleProvider False) (DNSName foreignEndpoint)"
    by (simp add: exampleProvider_def foreignEndpoint_def HasSuffix_def)
  have name: "DNSName foreignEndpoint = ''www.example.org''" "RecordType foreignEndpoint = ''A''"
    by (simp_all add: foreignEndpoint_def)
  show ?thesis
    using out
      filtered_out_endpoint_is_skipped [OF out, where pkg = examplePackage and m = exampleTable
        and ?es1.0 = "[failingEndpoint]" and ?es2.0 = "[apiEndpoint]" and w = emptyWorld]
    by (simp only: name simp_thms)
qed

text \<open>The endpoint \<open>rr.example.com\<close> has two targets.\<close>

theorem not_one_target_is_skipped_witness:
  "length (Targets twoTargetsEndpoint) \<noteq> 1 \<and>
   (let w1 = createRecords examplePackage (exampleProvider False) exampleTable [failingEndpoint] emptyWorld in
      \<exists>lg. createRecords examplePackage (exampleProvider False) exampleTable
          ([failingEndpoint] @ twoTargetsEndpoint # [apiEndpoint]) emptyWorld =
        createRecords examplePackage (exampleProvider False) exampleTable [apiEndpoint]
          (w1\<lparr>logs := logs w1 @ [lg]\<rparr>)) \<and>
   (let w1 = updateRecords examplePackage (exampleProvider False) exampleTable [failingEndpoint] emptyWorld in
      \<exists>lg. updateRecords examplePackage (exampleProvider False) exampleTable
          ([failingEndpoint] @ twoTargetsEndpoint # [apiEndpoint]) emptyWorld =
        updateRecords examplePackage (exampleProvider False) exampleTable [apiEndpoint]
          (w1\<lparr>logs := logs w1 @ [lg]\<rparr>))"
proof -
  have two: "length (Targets twoTargetsEndpoint) \<noteq> 1"
    by (simp add: twoTargetsEndpoint_def)
  show ?thesis
    using two
      not_one_target_is_skipped [OF two, where pkg = examplePackage and m = exampleTable
        and p = "exampleProvider False"
        and ?es1.0 = "[failingEndpoint]" and ?es2.0 = "[apiEndpoint]" and w = emptyWorld]
    by (simp only: simp_thms)
qed

text \<open>The lookup for \<open>old.example.com\<close> returns two ids.\<close>

theorem ambiguous_lookup_is_skipped_witness:
  "domainFilter (exampleProvider False) (DNSName oldEndpoint) \<and>
   owningZone examplePackage exampleTable oldEndpoint \<noteq> '''' \<and>
   length (Targets oldEndpoint) = 1 \<and>
   GetInts (client (exampleProvider False)) []
     ''/domain/zone/example.com/record?fieldType=CNAME&subDomain=old'' = Inr [3, 4] \<and>
   (\<exists>r lgs. deleteRecords examplePackage (exampleProvider False) exampleTable
        ([] @ oldEndpoint # [wwwEndpoint]) emptyWorld =
      deleteRecords examplePackage (exampleProvider False) exampleTable [wwwEndpoint]
        (emptyWorld\<lparr>trace := trace emptyWorld @
            [(GET ''/domain/zone/example.com/record?fieldType=CNAME&subDomain=old'', r)],
          logs := logs emptyWorld @ lgs\<rparr>)) \<and>
   (\<exists>r lgs. updateRecords examplePackage (exampleProvider False) exampleTable
        ([] @ oldEndpoint # [wwwEndpoint]) emptyWorld =
      updateRecords examplePackage (exampleProvider False) exampleTable [wwwEndpoint]
        (emptyWorld\<lparr>trace := trace emptyWorld @
            [(GET ''/domain/zone/example.com/record?fieldType=CNAME&subDomain=old'', r)],
          logs := logs emptyWorld @ lgs\<rparr>))"
proof -
  have f: "domainFilter (exampleProvider False) (DNSName oldEndpoint)"
    by (rule exampleProvider_filter)
  have z: "owningZone examplePackage exampleTable oldEndpoint \<noteq> ''''"
    by (simp add: exampleTable_zones)
  have t: "length (Targets oldEndpoint) = 1"
    by (simp add: oldEndpoint_def)
  have ids: "GetInts (client (exampleProvider False)) []
     ''/domain/zone/example.com/record?fieldType=CNAME&subDomain=old'' = Inr [3, 4]"
    by (simp add: exampleProvider_def exampleClient_def)
  have e: "trace emptyWorld = []"
    by (simp add: emptyWorld_def)
  show ?thesis
    using f z t ids
      ambiguous_lookup_is_skipped [OF f z, where ?es1.0 = "[]" and ?es2.0 = "[wwwEndpoint]"
        and w = emptyWorld]
    by (simp add: Let_def exampleTable_zones e)
qed

text \<open>
  The endpoint \<open>www.example.com\<close> without targets is deleted after the lookup found
  its record.
\<close>

theorem deleteRecords_ignores_targets_witness:
  "domainFilter (exampleProvider False) (DNSName (wwwEndpoint\<lparr>Targets := []\<rparr>)) \<and>
   owningZone examplePackage exampleTable (wwwEndpoint\<lparr>Targets := []\<rparr>) \<noteq> '''' \<and>
   (\<exists>rest. map fst (trace (deleteRecords examplePackage (exampleProvider False) exampleTable
        ([oldEndpoint] @ wwwEndpoint\<lparr>Targets := []\<rparr> # [goneEndpoint]) emptyWorld)) =
      [GET ''/domain/zone/example.com/record?fieldType=CNAME&subDomain=old'',
       GET ''/domain/zone/example.com/record?fieldType=A&subDomain=www'',
       DELETE ''/domain/zone/example.com/record/1''] @ rest) \<and>
   trace (deleteRecords examplePackage (exampleProvider False) exampleTable
      (map (\<lambda>e. e\<lparr>Targets := [''192.0.2.1'', ''192.0.2.2'']\<rparr>)
         ([oldEndpoint] @ wwwEndpoint\<lparr>Targets := []\<rparr> # [goneEndpoint])) emptyWorld) =
   trace (deleteRecords examplePackage (exampleProvider False) exampleTable
      ([oldEndpoint] @ wwwEndpoint\<lparr>Targets := []\<rparr> # [goneEndpoint]) emptyWorld)"
proof -
  let ?p = "exampleProvider False"
  let ?e = "wwwEndpoint\<lparr>Targets := []\<rparr>"
  have f: "domainFilter ?p (DNSName ?e)"
    by (rule exampleProvider_filter)
  have z: "owningZone examplePackage exampleTable ?e \<noteq> ''''"
    by (simp add: exampleTable_zones)
  have ids: "GetInts (client ?p) h ''/domain/zone/example.com/record?fieldType=A&subDomain=www'' = Inr [1]"
    "GetInts (client ?p) h ''/domain/zone/example.com/record?fieldType=CNAME&subDomain=old'' = Inr [3, 4]"
    for h
    by (simp_all add: exampleProvider_def exampleClient_def)
  have "map fst (trace (deleteRecord examplePackage ?p exampleTable oldEndpoint emptyWorld)) =
      [GET ''/domain/zone/example.com/record?fieldType=CNAME&subDomain=old'']"
    using deleteRecord_calls [of ?p oldEndpoint examplePackage exampleTable emptyWorld]
    by (simp add: exampleProvider_filter exampleTable_zones ids emptyWorld_def)
  then have before: "map fst (trace (deleteRecords examplePackage ?p exampleTable [oldEndpoint] emptyWorld)) =
      [GET ''/domain/zone/example.com/record?fieldType=CNAME&subDomain=old'']"
    by simp
  have url: "zoneRecordURL ''example.com'' 1 = ''/domain/zone/example.com/record/1''"
    by (simp add: eval_defs)
  have dry: "\<not> dryRun ?p"
    by (simp add: exampleProvider_def)
  show ?thesis
    using f z
      deleteRecords_ignores_targets [OF f z, where ?es1.0 = "[oldEndpoint]"
        and ?es2.0 = "[goneEndpoint]" and w = emptyWorld
        and ts = "\<lambda>e. [''192.0.2.1'', ''192.0.2.2'']"]
    by (simp add: Let_def exampleTable_zones ids before url dry del: deleteRecords.simps)
qed

end
